theory Spec2Isabelle
  imports Main
begin

section \<open>JavaScript values\<close>

text \<open>
  The instance values and remote payloads are decoded JSON trees that the code probes
  dynamically. Numbers are the integral ids the scheme uses (\<open>JNaN\<close> is the one
  non-integral number the code can produce, through \<open>Number(...)\<close>). An object is its
  list of own properties in insertion order. Trees carry no aliasing: two objects are
  never the same reference.
\<close>

datatype jv =
    JUndefined
  | JNull
  | JBool bool
  | JNaN
  | JNum int
  | JStr string
  | JArr "jv list"
  | JObj "(string \<times> jv) list"

text \<open>Property read \<open>o[k]\<close> on an object's property list: a missing key reads \<open>undefined\<close>.\<close>

fun obj_get :: "(string \<times> jv) list \<Rightarrow> string \<Rightarrow> jv" where
  "obj_get [] k = JUndefined"
| "obj_get ((k', v) # kvs) k = (if k' = k then v else obj_get kvs k)"

text \<open>Property write \<open>o[k] = v\<close>: an existing key keeps its position, a new key goes last.\<close>

fun obj_set :: "(string \<times> jv) list \<Rightarrow> string \<Rightarrow> jv \<Rightarrow> (string \<times> jv) list" where
  "obj_set [] k v = [(k, v)]"
| "obj_set ((k', v') # kvs) k v = (if k' = k then (k, v) # kvs else (k', v') # obj_set kvs k v)"

text \<open>\<open>delete o[k]\<close>.\<close>

fun obj_del :: "(string \<times> jv) list \<Rightarrow> string \<Rightarrow> (string \<times> jv) list" where
  "obj_del [] k = []"
| "obj_del ((k', v') # kvs) k = (if k' = k then obj_del kvs k else (k', v') # obj_del kvs k)"

text \<open>\<open>v.k\<close> on any value that is neither \<open>null\<close> nor \<open>undefined\<close>; the JSON trees have
  no named properties on arrays and primitives.\<close>

fun js_prop :: "jv \<Rightarrow> string \<Rightarrow> jv" where
  "js_prop (JObj kvs) k = obj_get kvs k"
| "js_prop _ k = JUndefined"

text \<open>Strict equality \<open>===\<close> of two values that come from different trees (a read-back
  response and an instance): by value on primitives, \<open>NaN\<close> equals nothing, and an
  object or array, which is equal to itself only, equals nothing of the other tree.\<close>

fun strict_eq :: "jv \<Rightarrow> jv \<Rightarrow> bool" where
  "strict_eq JUndefined JUndefined = True"
| "strict_eq JNull JNull = True"
| "strict_eq (JBool a) (JBool b) = (a = b)"
| "strict_eq (JNum a) (JNum b) = (a = b)"
| "strict_eq (JStr a) (JStr b) = (a = b)"
| "strict_eq _ _ = False"

fun is_reference :: "jv \<Rightarrow> bool" where
  "is_reference (JObj kvs) = True"
| "is_reference (JArr xs) = True"
| "is_reference v = False"

text \<open>Strict equality \<open>===\<close> inside one tree, between the value \<open>a\<close> held at place \<open>i\<close>
  and the value \<open>b\<close> held at place \<open>j\<close>: an object or array is identical to itself, and,
  the values being a tree, to nothing held elsewhere.\<close>

definition identical :: "nat \<Rightarrow> jv \<Rightarrow> nat \<Rightarrow> jv \<Rightarrow> bool" where
  "identical i a j b = (if is_reference a \<and> is_reference b then i = j else strict_eq a b)"

subsection \<open>Stringification in a template literal\<close>

definition digit_char :: "nat \<Rightarrow> char" where
  "digit_char n = char_of (48 + n)"

function string_of_nat :: "nat \<Rightarrow> string" where
  "string_of_nat n =
     (if n < 10 then [digit_char n] else string_of_nat (n div 10) @ [digit_char (n mod 10)])"
  by pat_completeness auto
termination
  by (relation "measure id") auto

definition string_of_int :: "int \<Rightarrow> string" where
  "string_of_int i = (if i < 0 then ''-'' @ string_of_nat (nat (- i)) else string_of_nat (nat i))"

fun join_commas :: "string list \<Rightarrow> string" where
  "join_commas [] = []"
| "join_commas [s] = s"
| "join_commas (s # t # ss) = s @ '','' @ join_commas (t # ss)"

text \<open>\<open>String(v)\<close>, as \<open>${v}\<close> computes it. An integer prints in decimal (below
  \<open>10^21\<close>, which covers every id), an array joins its elements with commas, printing
  \<open>null\<close> and \<open>undefined\<close> elements as the empty string, and a plain object prints as
  \<open>[object Object]\<close>.\<close>

fun js_to_string :: "jv \<Rightarrow> string" where
  "js_to_string JUndefined = ''undefined''"
| "js_to_string JNull = ''null''"
| "js_to_string (JBool b) = (if b then ''true'' else ''false'')"
| "js_to_string JNaN = ''NaN''"
| "js_to_string (JNum n) = string_of_int n"
| "js_to_string (JStr s) = s"
| "js_to_string (JArr xs) =
     join_commas (map (\<lambda>x. if x = JUndefined \<or> x = JNull then [] else js_to_string x) xs)"
| "js_to_string (JObj kvs) = ''[object Object]''"

section \<open>Event entries and their identity key\<close>

text \<open>\<open>EventValues\<close>: an absent optional field is \<open>undefined\<close>. The entry holds the very
  \<open>eventType\<close> value of the scheme event it is projected from, not a copy: \<open>ev_source\<close>
  is the position of that scheme event, and stands for the identity of the value.\<close>

record EventValues =
  ev_eventType :: jv
  ev_type :: jv
  ev_parameter :: jv
  ev_id :: jv
  ev_source :: nat

definition getEventKey :: "EventValues \<Rightarrow> string" where
  "getEventKey event =
     js_to_string (ev_eventType event) @ ''-'' @ js_to_string (ev_type event) @ ''-''
       @ js_to_string (ev_parameter event)"

section \<open>Shape validation\<close>

text \<open>
  The Joi combinators the schema is built from, as predicates on a value, under Joi's
  default options: a key is optional unless \<open>required()\<close>, \<open>null\<close> is never allowed,
  an array may not hold \<open>undefined\<close>, \<open>Joi.string()\<close> refuses the empty string, and
  \<open>Joi.number()\<close> takes a number in the safe integer range or a string that Joi converts
  to a number. Which strings convert is left to the parameter \<open>numeric\<close>.
\<close>

definition joi_required :: "(jv \<Rightarrow> bool) \<Rightarrow> jv \<Rightarrow> bool" where
  "joi_required s v = (v \<noteq> JUndefined \<and> s v)"

definition joi_optional :: "(jv \<Rightarrow> bool) \<Rightarrow> jv \<Rightarrow> bool" where
  "joi_optional s v = (v = JUndefined \<or> s v)"

fun joi_number :: "(string \<Rightarrow> bool) \<Rightarrow> jv \<Rightarrow> bool" where
  "joi_number numeric (JNum n) = (\<bar>n\<bar> \<le> 9007199254740991)"
| "joi_number numeric (JStr s) = numeric s"
| "joi_number numeric _ = False"

fun joi_string :: "jv \<Rightarrow> bool" where
  "joi_string (JStr s) = (s \<noteq> [])"
| "joi_string _ = False"

fun joi_array_items :: "(jv \<Rightarrow> bool) \<Rightarrow> jv \<Rightarrow> bool" where
  "joi_array_items s (JArr xs) = list_all (\<lambda>x. x \<noteq> JUndefined \<and> s x) xs"
| "joi_array_items s _ = False"

text \<open>\<open>Joi.object({...}).unknown(true)\<close>: each listed key is checked on what the object
  holds under it, other keys are let through.\<close>

fun joi_object_unknown :: "(string \<times> (jv \<Rightarrow> bool)) list \<Rightarrow> jv \<Rightarrow> bool" where
  "joi_object_unknown keys (JObj kvs) = list_all (\<lambda>(k, s). s (obj_get kvs k)) keys"
| "joi_object_unknown keys _ = False"

definition NOTIFICATION_SCHEME :: "(string \<Rightarrow> bool) \<Rightarrow> jv \<Rightarrow> bool" where
  "NOTIFICATION_SCHEME numeric =
     joi_required (joi_object_unknown
       [(''notificationSchemeEvents'',
         joi_optional (joi_array_items
           (joi_object_unknown
             [(''event'',
               joi_required (joi_object_unknown
                 [(''id'', joi_required (joi_number numeric))])),
              (''notifications'',
               joi_optional (joi_array_items
                 (joi_object_unknown
                   [(''notificationType'', joi_required joi_string)])))])))])"

text \<open>\<open>isNotificationScheme\<close>: false exactly when validation reports an error (the log
  line is not modelled).\<close>

definition isNotificationScheme :: "(string \<Rightarrow> bool) \<Rightarrow> jv \<Rightarrow> bool" where
  "isNotificationScheme numeric v = NOTIFICATION_SCHEME numeric v"

subsection \<open>The shape in words\<close>

text \<open>The shape the validator is meant to accept, written out field by field, to compare
  with the schema.\<close>

fun notification_shape :: "jv \<Rightarrow> bool" where
  "notification_shape (JObj kvs) =
     (case obj_get kvs ''notificationType'' of JStr s \<Rightarrow> s \<noteq> [] | _ \<Rightarrow> False)"
| "notification_shape _ = False"

fun event_ref_shape :: "(string \<Rightarrow> bool) \<Rightarrow> jv \<Rightarrow> bool" where
  "event_ref_shape numeric (JObj kvs) =
     (case obj_get kvs ''id'' of
        JNum n \<Rightarrow> \<bar>n\<bar> \<le> 9007199254740991
      | JStr s \<Rightarrow> numeric s
      | _ \<Rightarrow> False)"
| "event_ref_shape numeric _ = False"

fun scheme_event_shape :: "(string \<Rightarrow> bool) \<Rightarrow> jv \<Rightarrow> bool" where
  "scheme_event_shape numeric (JObj kvs) =
     (event_ref_shape numeric (obj_get kvs ''event'')
      \<and> (case obj_get kvs ''notifications'' of
            JUndefined \<Rightarrow> True
          | JArr ns \<Rightarrow> list_all notification_shape ns
          | _ \<Rightarrow> False))"
| "scheme_event_shape numeric _ = False"

fun scheme_shape :: "(string \<Rightarrow> bool) \<Rightarrow> jv \<Rightarrow> bool" where
  "scheme_shape numeric (JObj kvs) =
     (case obj_get kvs ''notificationSchemeEvents'' of
        JUndefined \<Rightarrow> True
      | JArr evs \<Rightarrow> list_all (scheme_event_shape numeric) evs
      | _ \<Rightarrow> False)"
| "scheme_shape numeric _ = False"

subsection \<open>Transforming a validated payload\<close>

datatype error =
    InvalidScheme   \<comment> \<open>\<open>Error('Received an invalid notification scheme')\<close>\<close>
  | TypeError       \<comment> \<open>a property access on \<open>undefined\<close> or \<open>null\<close>, a call of a non-function\<close>
  | RemoteError     \<comment> \<open>a rejected client call\<close>
  | ExpectedObjectType  \<comment> \<open>\<open>Error('Expected event type to be an object type')\<close>\<close>

fun map_result :: "('a \<Rightarrow> error + 'b) \<Rightarrow> 'a list \<Rightarrow> error + 'b list" where
  "map_result f [] = Inr []"
| "map_result f (x # xs) =
     (case f x of
        Inl e \<Rightarrow> Inl e
      | Inr y \<Rightarrow> (case map_result f xs of Inl e \<Rightarrow> Inl e | Inr ys \<Rightarrow> Inr (y # ys)))"

text \<open>The body of the inner \<open>forEach\<close> of \<open>transformNotificationEvent\<close>. After validation
  every notification is an object; the other cases are the \<open>TypeError\<close> of strict mode.\<close>

fun transformNotification :: "jv \<Rightarrow> error + jv" where
  "transformNotification (JObj kvs) =
     Inr (JObj (obj_del (obj_del (obj_del
            (obj_set kvs ''type'' (obj_get kvs ''notificationType''))
            ''notificationType'') ''additionalProperties'') ''user''))"
| "transformNotification _ = Inl TypeError"

fun transformNotificationEvent :: "jv \<Rightarrow> error + jv" where
  "transformNotificationEvent (JObj kvs) =
     (let ev = obj_get kvs ''event'';
          eventType = (if ev = JUndefined \<or> ev = JNull then JUndefined else js_prop ev ''id'');
          kvs1 = obj_del (obj_set kvs ''eventType'' eventType) ''event''
      in case obj_get kvs1 ''notifications'' of
           JUndefined \<Rightarrow> Inr (JObj kvs1)
         | JNull \<Rightarrow> Inr (JObj kvs1)
         | JArr ns \<Rightarrow>
             (case map_result transformNotification ns of
                Inl e \<Rightarrow> Inl e
              | Inr ns' \<Rightarrow> Inr (JObj (obj_set kvs1 ''notifications'' (JArr ns'))))
         | _ \<Rightarrow> Inl TypeError)"
| "transformNotificationEvent _ = Inl TypeError"

fun transformAllNotificationEvents :: "(string \<Rightarrow> bool) \<Rightarrow> jv \<Rightarrow> error + jv" where
  "transformAllNotificationEvents numeric v =
     (if \<not> isNotificationScheme numeric v then Inl InvalidScheme
      else case v of
        JObj kvs \<Rightarrow>
          (case obj_get kvs ''notificationSchemeEvents'' of
             JUndefined \<Rightarrow> Inr v
           | JNull \<Rightarrow> Inr v
           | JArr evs \<Rightarrow>
               (case map_result transformNotificationEvent evs of
                  Inl e \<Rightarrow> Inl e
                | Inr evs' \<Rightarrow> Inr (JObj (obj_set kvs ''notificationSchemeEvents'' (JArr evs'))))
           | _ \<Rightarrow> Inl TypeError)
      | _ \<Rightarrow> Inl TypeError)"

section \<open>Elements and changes\<close>

text \<open>
  Modelled from the spec: the element and change model of the adapter API, which is not
  among the sources. A change is one of "Addition(after), Modification(before, after),
  Removal(before)", and \<open>getChangeData\<close> is the after side when there is one. Each side of
  the diff is a mapping keyed by "the identity key": an event instance is named by its
  key, and its full name is the name under the dotted prefix of its type.
\<close>

type_synonym props = "(string \<times> jv) list"

record ObjectType =
  ot_adapter :: string
  ot_name :: string

datatype TypeElement = ObjType ObjectType | OtherType

record InstanceElement =
  elem_name :: string
  elem_type :: ObjectType
  inst_value :: props

definition getFullName :: "InstanceElement \<Rightarrow> string" where
  "getFullName i =
     ot_adapter (elem_type i) @ ''.'' @ ot_name (elem_type i) @ ''.instance.'' @ elem_name i"

datatype 'a Change = Addition 'a | Removal 'a | Modification 'a 'a

fun getChangeData :: "'a Change \<Rightarrow> 'a" where
  "getChangeData (Addition a) = a"
| "getChangeData (Removal b) = b"
| "getChangeData (Modification b a) = a"

fun isAdditionChange :: "'a Change \<Rightarrow> bool" where
  "isAdditionChange (Addition a) = True"
| "isAdditionChange _ = False"

fun isRemovalChange :: "'a Change \<Rightarrow> bool" where
  "isRemovalChange (Removal b) = True"
| "isRemovalChange _ = False"

fun isModificationChange :: "'a Change \<Rightarrow> bool" where
  "isModificationChange (Modification b a) = True"
| "isModificationChange _ = False"

section \<open>Projection of a scheme to event entries\<close>

definition nullish :: "jv \<Rightarrow> bool" where
  "nullish v = (v = JUndefined \<or> v = JNull)"

fun notification_values :: "nat \<Rightarrow> jv \<Rightarrow> jv \<Rightarrow> error + EventValues" where
  "notification_values i eventType notification =
     (if nullish notification then Inl TypeError
      else Inr \<lparr>ev_eventType = eventType,
                ev_type = js_prop notification ''type'',
                ev_parameter = js_prop notification ''parameter'',
                ev_id = js_prop notification ''id'',
                ev_source = i\<rparr>)"

text \<open>The entries of the \<open>i\<close>-th scheme event.\<close>

fun event_values :: "nat \<times> jv \<Rightarrow> error + EventValues list" where
  "event_values (i, event) =
     (if nullish event then Inl TypeError
      else case js_prop event ''notifications'' of
        JUndefined \<Rightarrow> Inr []
      | JNull \<Rightarrow> Inr []
      | JArr ns \<Rightarrow> map_result (notification_values i (js_prop event ''eventType'')) ns
      | _ \<Rightarrow> Inl TypeError)"

definition getEventsValues :: "props \<Rightarrow> error + EventValues list" where
  "getEventsValues instanceValues =
     (case obj_get instanceValues ''notificationSchemeEvents'' of
        JUndefined \<Rightarrow> Inr []
      | JNull \<Rightarrow> Inr []
      | JArr evs \<Rightarrow>
          (case map_result event_values (enumerate 0 evs) of
             Inl e \<Rightarrow> Inl e
           | Inr ess \<Rightarrow> Inr (concat ess))
      | _ \<Rightarrow> Inl TypeError)"

definition EVENT_TYPES :: props where
  "EVENT_TYPES = [(''GroupCustomFieldll'', JStr ''Group_Custom_Field_Value'')]"

text \<open>\<open>EVENT_TYPES[t] ?? t\<close>. The table has one own key; a \<open>t\<close> that names a member of
  \<open>Object.prototype\<close> is not modelled.\<close>

definition event_type_name :: "jv \<Rightarrow> jv" where
  "event_type_name t =
     (let m = obj_get EVENT_TYPES (js_to_string t) in if nullish m then t else m)"

text \<open>What \<open>flatMap\<close> appends for one callback result: the elements of an array, or the
  value itself.\<close>

fun flat1 :: "jv \<Rightarrow> jv list" where
  "flat1 (JArr xs) = xs"
| "flat1 v = [v]"

text \<open>\<open>_.pickBy(o, isDefined)\<close> keeps the properties that are not \<open>undefined\<close>.\<close>

definition pickBy_isDefined :: "props \<Rightarrow> props" where
  "pickBy_isDefined kvs = filter (\<lambda>(k, v). v \<noteq> JUndefined) kvs"

text \<open>\<open>convertValuesToJSPBody\<close>, called on \<open>{...event, name, id}\<close>. The object literal is
  written key by key, so the computed key \<open>[type]\<close> overwrites an earlier key of the same
  name. The filter compares the \<open>eventType\<close> of every scheme event of the instance with
  the one the entry holds, which is the \<open>eventType\<close> of the scheme event it comes from.\<close>

definition convertValuesToJSPBody ::
  "EventValues \<Rightarrow> string \<Rightarrow> jv \<Rightarrow> props \<Rightarrow> error + props" where
  "convertValuesToJSPBody event name ident instanceValues =
     (let type = event_type_name (ev_type event) in
      case obj_get instanceValues ''notificationSchemeEvents'' of
        JArr evs \<Rightarrow>
          Inr (pickBy_isDefined
            (obj_set (obj_set (obj_set (obj_set (obj_set (obj_set (obj_set (obj_set []
               ''event'' (JObj [(''id'', ev_eventType event)]))
               ''notifications''
                 (JArr (concat (map (\<lambda>(i, e). flat1 (js_prop e ''notifications''))
                   (filter (\<lambda>(i, e). identical i (js_prop e ''eventType'')
                                        (ev_source event) (ev_eventType event))
                      (enumerate 0 evs))))))
               ''id'' ident)
               ''schemeId'' (obj_get instanceValues ''id''))
               ''name'' (JStr name))
               ''eventTypeIds'' (ev_eventType event))
               ''type'' type)
               (js_to_string type)
                 (if nullish (ev_parameter event) then JUndefined
                  else JStr (js_to_string (ev_parameter event)))))
      | _ \<Rightarrow> Inl TypeError)"

definition getEventInstance :: "InstanceElement \<Rightarrow> ObjectType \<Rightarrow> EventValues \<Rightarrow> error + InstanceElement" where
  "getEventInstance instance eventType event =
     (let ids = obj_get (inst_value instance) ''notificationIds'' in
      case convertValuesToJSPBody event (getEventKey event)
             (if nullish ids then JUndefined else js_prop ids (getEventKey event))
             (inst_value instance) of
        Inl e \<Rightarrow> Inl e
      | Inr body \<Rightarrow>
          Inr \<lparr>elem_name = getEventKey event, elem_type = eventType, inst_value = body\<rparr>)"

definition getEventInstances :: "InstanceElement \<Rightarrow> ObjectType \<Rightarrow> error + InstanceElement list" where
  "getEventInstances instance eventType =
     (case getEventsValues (inst_value instance) of
        Inl e \<Rightarrow> Inl e
      | Inr events \<Rightarrow> map_result (getEventInstance instance eventType) events)"

text \<open>\<open>getEventType\<close>, given the deep inner type of the \<open>notificationSchemeEvents\<close> field.\<close>

fun getEventType :: "TypeElement \<Rightarrow> error + ObjectType" where
  "getEventType (ObjType t) = Inr t"
| "getEventType OtherType = Inl ExpectedObjectType"

section \<open>Diff of the event entries\<close>

text \<open>\<open>_.keyBy\<close> builds an object: a key seen again keeps its place and takes the later
  value. The keys are full element names, which are not array indices, so
  \<open>Object.values\<close> lists the values in insertion order.\<close>

fun key_set :: "(string \<times> 'a) list \<Rightarrow> string \<Rightarrow> 'a \<Rightarrow> (string \<times> 'a) list" where
  "key_set [] k v = [(k, v)]"
| "key_set ((k', v') # kvs) k v = (if k' = k then (k, v) # kvs else (k', v') # key_set kvs k v)"

definition keyBy :: "('a \<Rightarrow> string) \<Rightarrow> 'a list \<Rightarrow> (string \<times> 'a) list" where
  "keyBy f xs = foldl (\<lambda>acc x. key_set acc (f x) x) [] xs"

definition object_values :: "(string \<times> 'a) list \<Rightarrow> 'a list" where
  "object_values kvs = map snd kvs"

definition newEvents :: "InstanceElement list \<Rightarrow> InstanceElement list \<Rightarrow> InstanceElement list" where
  "newEvents eventInstancesBefore eventInstancesAfter =
     filter (\<lambda>instance. map_of (keyBy getFullName eventInstancesBefore) (getFullName instance) = None)
       (object_values (keyBy getFullName eventInstancesAfter))"

definition removedEvents :: "InstanceElement list \<Rightarrow> InstanceElement list \<Rightarrow> InstanceElement list" where
  "removedEvents eventInstancesBefore eventInstancesAfter =
     filter (\<lambda>instance. map_of (keyBy getFullName eventInstancesAfter) (getFullName instance) = None)
       (object_values (keyBy getFullName eventInstancesBefore))"

fun getEventChanges ::
  "TypeElement \<Rightarrow> InstanceElement Change \<Rightarrow> error + InstanceElement Change list" where
  "getEventChanges fieldType change =
     (case getEventType fieldType of
        Inl e \<Rightarrow> Inl e
      | Inr eventType \<Rightarrow>
         (case (case change of
                  Modification b a \<Rightarrow> getEventInstances b eventType
                | _ \<Rightarrow> Inr []) of
            Inl e \<Rightarrow> Inl e
          | Inr eventInstancesBefore \<Rightarrow>
             (case (case change of
                      Removal b \<Rightarrow> Inl TypeError
                    | _ \<Rightarrow> getEventInstances (getChangeData change) eventType) of
                Inl e \<Rightarrow> Inl e
              | Inr eventInstancesAfter \<Rightarrow>
                  Inr (map Removal (removedEvents eventInstancesBefore eventInstancesAfter)
                       @ map Addition (newEvents eventInstancesBefore eventInstancesAfter)))))"

section \<open>The apply loop\<close>

text \<open>
  The remote side. The client class is not among the sources; its three calls are
  parameters. A call either resolves or rejects; what the service answers is not
  determined by the request alone, so the answer is a function of the task of the loop
  that makes the call (its position in the list of event changes) and of the request.
  \<open>getSinglePage\<close> resolves with the \<open>data\<close> of its response. The tasks of the loop run
  concurrently: \<open>c_order\<close> is the order in which the answers of the service arrive, each
  entry naming the task whose pending call is answered next. Every call issued is logged.
\<close>

datatype call =
    Delete string        \<comment> \<open>\<open>client.delete({ url })\<close>\<close>
  | Put string jv        \<comment> \<open>\<open>client.put({ url, data })\<close>\<close>
  | Get string props     \<comment> \<open>\<open>client.getSinglePage({ url, queryParams })\<close>\<close>

record client =
  c_delete :: "nat \<Rightarrow> string \<Rightarrow> bool"
  c_put :: "nat \<Rightarrow> string \<Rightarrow> jv \<Rightarrow> bool"
  c_getSinglePage :: "nat \<Rightarrow> string \<Rightarrow> props \<Rightarrow> jv option"
  c_order :: "nat list"

text \<open>Modelled from the spec: \<open>isPageResponse\<close> of the automation filter, which is not
  among the sources. The read-back response "must contain a \<open>values\<close> array".\<close>

fun isPageResponse :: "jv \<Rightarrow> bool" where
  "isPageResponse (JObj kvs) = (case obj_get kvs ''values'' of JArr xs \<Rightarrow> True | _ \<Rightarrow> False)"
| "isPageResponse _ = False"

text \<open>\<open>response.data.values[0]\<close> of a page response.\<close>

fun first_value :: "jv \<Rightarrow> jv" where
  "first_value (JObj kvs) =
     (case obj_get kvs ''values'' of JArr (x # xs) \<Rightarrow> x | _ \<Rightarrow> JUndefined)"
| "first_value _ = JUndefined"

text \<open>The state the loop works on: the values of the scheme instance, which the tasks
  mutate in place, and the calls issued so far.\<close>

record deploy_state =
  ds_value :: props
  ds_calls :: "call list"

text \<open>A task of the loop at an \<open>await\<close> or at its end: settled (resolved, or rejected
  with an error), or waiting for the answer to the call it issued.\<close>

datatype pending =
    Settled "error option"
  | AwaitDelete InstanceElement string
  | AwaitPut InstanceElement string jv
  | AwaitGet InstanceElement

text \<open>One descriptor of the body of the create call.\<close>

definition put_notification :: "jv \<Rightarrow> error + jv" where
  "put_notification notification =
     (if nullish notification then Inl TypeError
      else Inr (JObj (pickBy_isDefined
             [(''notificationType'', event_type_name (js_prop notification ''notificationType'')),
              (''parameter'', js_prop notification ''parameter'')])))"

definition put_data :: "InstanceElement \<Rightarrow> error + jv" where
  "put_data eventInstance =
     (case obj_get (inst_value eventInstance) ''notifications'' of
        JArr ns \<Rightarrow>
          (case map_result put_notification ns of
             Inl e \<Rightarrow> Inl e
           | Inr ns' \<Rightarrow>
               Inr (JObj [(''notificationSchemeEvents'',
                     JArr [JObj [(''event'',
                                  JObj [(''id'', obj_get (inst_value eventInstance) ''eventTypeIds'')]),
                                 (''notifications'', JArr ns')]])]))
      | _ \<Rightarrow> Inl TypeError)"

definition delete_url :: "jv \<Rightarrow> jv \<Rightarrow> string" where
  "delete_url notificationSchemeId notificationId =
     ''/rest/api/3/notificationscheme/'' @ js_to_string notificationSchemeId
       @ ''/notification/'' @ js_to_string notificationId"

definition put_url :: "jv \<Rightarrow> string" where
  "put_url notificationSchemeId =
     ''/rest/api/3/notificationscheme/'' @ js_to_string notificationSchemeId @ ''/notification''"

text \<open>The part of a task that runs before its first \<open>await\<close>. A removal reads the stored
  id with no guard and issues the delete call; an addition creates the identifier map if
  it is \<open>undefined\<close>, builds the body and issues the create call.\<close>

fun task_start :: "deploy_state \<Rightarrow> InstanceElement Change \<Rightarrow> deploy_state \<times> pending" where
  "task_start st (Removal eventInstance) =
     (let notificationSchemeId = obj_get (inst_value eventInstance) ''schemeId'';
          ids = obj_get (ds_value st) ''notificationIds''
      in if nullish ids then (st, Settled (Some TypeError))
         else
           (let notificationId =
                  js_prop ids (js_to_string (obj_get (inst_value eventInstance) ''name''));
                url = delete_url notificationSchemeId notificationId
            in (st\<lparr>ds_calls := ds_calls st @ [Delete url]\<rparr>, AwaitDelete eventInstance url)))"
| "task_start st (Addition eventInstance) =
     (let notificationSchemeId = obj_get (inst_value eventInstance) ''schemeId'';
          st1 = (if obj_get (ds_value st) ''notificationIds'' = JUndefined
                 then st\<lparr>ds_value := obj_set (ds_value st) ''notificationIds'' (JObj [])\<rparr>
                 else st)
      in case put_data eventInstance of
           Inl e \<Rightarrow> (st1, Settled (Some e))
         | Inr data \<Rightarrow>
             (st1\<lparr>ds_calls := ds_calls st1 @ [Put (put_url notificationSchemeId) data]\<rparr>,
              AwaitPut eventInstance (put_url notificationSchemeId) data))"
| "task_start st (Modification b a) = (st, Settled None)"

text \<open>The notifications of the read-back scheme that the added entry is matched with:
  those of the events with the entry's event type id, filtered by the channel type alone.
  Reading \<open>notificationType\<close> of a missing descriptor raises.\<close>

definition readback_candidates :: "InstanceElement \<Rightarrow> jv list \<Rightarrow> jv list" where
  "readback_candidates eventInstance evs =
     concat (map (\<lambda>event. flat1 (js_prop event ''notifications''))
       (filter (\<lambda>event.
            strict_eq
              (let ev = js_prop event ''event''
               in if nullish ev then JUndefined else js_prop ev ''id'')
              (obj_get (inst_value eventInstance) ''eventTypeIds''))
          evs))"

definition readback_matches :: "InstanceElement \<Rightarrow> jv list \<Rightarrow> error + jv list" where
  "readback_matches eventInstance evs =
     (if list_ex nullish (readback_candidates eventInstance evs) then Inl TypeError
      else Inr (filter (\<lambda>notification.
                  strict_eq (js_prop notification ''notificationType'')
                    (obj_get (inst_value eventInstance) ''type''))
                (readback_candidates eventInstance evs)))"

text \<open>\<open>instance.value.notificationIds[name] = id\<close>. The identifier map is \<open>undefined\<close>,
  \<open>null\<close> or an object; writing through anything else raises, as on a primitive in strict
  mode.\<close>

definition record_id :: "props \<Rightarrow> jv \<Rightarrow> jv \<Rightarrow> error + props" where
  "record_id instanceValues name ident =
     (case obj_get instanceValues ''notificationIds'' of
        JObj ids \<Rightarrow>
          Inr (obj_set instanceValues ''notificationIds''
                 (JObj (obj_set ids (js_to_string name) ident)))
      | _ \<Rightarrow> Inl TypeError)"

text \<open>\<open>delete instance.value.notificationIds[name]\<close>; the map was read before the delete
  call, so it is neither \<open>undefined\<close> nor \<open>null\<close> here.\<close>

definition forget_id :: "props \<Rightarrow> jv \<Rightarrow> props" where
  "forget_id instanceValues name =
     (case obj_get instanceValues ''notificationIds'' of
        JObj ids \<Rightarrow>
          obj_set instanceValues ''notificationIds'' (JObj (obj_del ids (js_to_string name)))
      | _ \<Rightarrow> instanceValues)"

text \<open>What happens when the answer to the read-back arrives with the data \<open>d\<close>: the
  values of the instance afterwards, and how the task settles.\<close>

definition readback :: "(string \<Rightarrow> bool) \<Rightarrow> props \<Rightarrow> InstanceElement \<Rightarrow> jv \<Rightarrow> props \<times> error option" where
  "readback numeric v eventInstance d =
     (if isPageResponse d \<and> isNotificationScheme numeric (first_value d)
      then
        (case js_prop (first_value d) ''notificationSchemeEvents'' of
           JArr evs \<Rightarrow>
             (case readback_matches eventInstance evs of
                Inl e \<Rightarrow> (v, Some e)
              | Inr [] \<Rightarrow> (v, Some TypeError)
              | Inr (notification # rest) \<Rightarrow>
                  (case record_id v (obj_get (inst_value eventInstance) ''name'')
                          (js_prop notification ''id'') of
                     Inl e \<Rightarrow> (v, Some e)
                   | Inr v' \<Rightarrow> (v', None)))
         | _ \<Rightarrow> (v, Some TypeError))
      else (v, None))"

definition readback_query :: "InstanceElement \<Rightarrow> props" where
  "readback_query eventInstance =
     [(''id'', obj_get (inst_value eventInstance) ''schemeId''),
      (''expand'', JStr ''notificationSchemeEvents'')]"

text \<open>Task \<open>i\<close> (the \<open>i\<close>-th event change) goes on when the answer to the call it waits for
  arrives, up to its next \<open>await\<close> or to its end. An addition that created its
  notification issues the read-back and waits again.\<close>

fun answer ::
  "(string \<Rightarrow> bool) \<Rightarrow> client \<Rightarrow> nat \<Rightarrow> deploy_state \<Rightarrow> pending \<Rightarrow> deploy_state \<times> pending" where
  "answer numeric cl i st (Settled r) = (st, Settled r)"
| "answer numeric cl i st (AwaitDelete eventInstance url) =
     (if c_delete cl i url
      then (st\<lparr>ds_value := forget_id (ds_value st) (obj_get (inst_value eventInstance) ''name'')\<rparr>,
            Settled None)
      else (st, Settled (Some RemoteError)))"
| "answer numeric cl i st (AwaitPut eventInstance url data) =
     (if c_put cl i url data
      then (st\<lparr>ds_calls := ds_calls st @
                 [Get ''/rest/api/3/notificationscheme'' (readback_query eventInstance)]\<rparr>,
            AwaitGet eventInstance)
      else (st, Settled (Some RemoteError)))"
| "answer numeric cl i st (AwaitGet eventInstance) =
     (case c_getSinglePage cl i ''/rest/api/3/notificationscheme'' (readback_query eventInstance) of
        None \<Rightarrow> (st, Settled (Some RemoteError))
      | Some d \<Rightarrow>
          (case readback numeric (ds_value st) eventInstance d of
             (v, r) \<Rightarrow> (st\<lparr>ds_value := v\<rparr>, Settled r)))"

fun start_all :: "deploy_state \<Rightarrow> InstanceElement Change list \<Rightarrow> deploy_state \<times> pending list" where
  "start_all st [] = (st, [])"
| "start_all st (c # cs) =
     (case task_start st c of
        (st1, p) \<Rightarrow> (case start_all st1 cs of (st2, ps) \<Rightarrow> (st2, p # ps)))"

fun settled_outcome :: "pending \<Rightarrow> error option" where
  "settled_outcome (Settled r) = r"
| "settled_outcome _ = None"

fun is_settled :: "pending \<Rightarrow> bool" where
  "is_settled (Settled r) = True"
| "is_settled _ = False"

fun first_rejection :: "error option list \<Rightarrow> error option" where
  "first_rejection [] = None"
| "first_rejection (None # rs) = first_rejection rs"
| "first_rejection (Some e # rs) = Some e"

text \<open>
  The loop while it runs: the state, the tasks, and the promise of \<open>Promise.all\<close>, which
  is pending (\<open>None\<close>) or settled, with its outcome and the values of the instance at
  that moment. The promise rejects as soon as one task rejects and resolves once every
  task has resolved. A rejection cancels nothing: the other tasks go on as their answers
  arrive.
\<close>

record run_state =
  rs_state :: deploy_state
  rs_tasks :: "pending list"
  rs_promise :: "(error option \<times> props) option"

text \<open>After the synchronous parts, which run one after the other in list order before any
  answer can arrive: the tasks that raised there have rejected, the first of them
  first.\<close>

definition promise_after_start :: "deploy_state \<Rightarrow> pending list \<Rightarrow> (error option \<times> props) option" where
  "promise_after_start st ps =
     (case first_rejection (map settled_outcome ps) of
        Some e \<Rightarrow> Some (Some e, ds_value st)
      | None \<Rightarrow> if list_all is_settled ps then Some (None, ds_value st) else None)"

text \<open>The answer to the call of task \<open>i\<close> arrives.\<close>

definition deliver :: "(string \<Rightarrow> bool) \<Rightarrow> client \<Rightarrow> run_state \<Rightarrow> nat \<Rightarrow> run_state" where
  "deliver numeric cl rs i =
     (if i < length (rs_tasks rs)
      then
        (case answer numeric cl i (rs_state rs) (rs_tasks rs ! i) of
           (st, p) \<Rightarrow>
             \<lparr>rs_state = st,
              rs_tasks = (rs_tasks rs)[i := p],
              rs_promise =
                (case rs_promise rs of
                   Some settled \<Rightarrow> Some settled
                 | None \<Rightarrow>
                     (case settled_outcome p of
                        Some e \<Rightarrow> Some (Some e, ds_value st)
                      | None \<Rightarrow>
                          if list_all is_settled ((rs_tasks rs)[i := p])
                          then Some (None, ds_value st) else None))\<rparr>)
      else rs)"

text \<open>Modelled from the spec: \<open>resolveChangeElement\<close> of the adapter utilities, which is
  not among the sources. It gives the "declarative before/after values" of a change with
  the references resolved; how an instance is resolved is the parameter \<open>resolve\<close>.\<close>

fun resolveChangeElement ::
  "(InstanceElement \<Rightarrow> InstanceElement) \<Rightarrow> InstanceElement Change \<Rightarrow> InstanceElement Change" where
  "resolveChangeElement resolve (Addition a) = Addition (resolve a)"
| "resolveChangeElement resolve (Removal b) = Removal (resolve b)"
| "resolveChangeElement resolve (Modification b a) = Modification (resolve b) (resolve a)"

text \<open>
  \<open>deployEvents\<close>. The diff is taken on the resolved change, the identifier map is the
  one of the instance of the change itself. Every task runs to its first \<open>await\<close> in list
  order. Then the answers arrive, one at a time, in the order \<open>c_order\<close> of the client;
  every call is answered in the end, so the tasks still waiting after that get their
  answers in list order (a task waits at most twice).

  The result tells what the awaited \<open>Promise.all\<close> settled with (\<open>dr_error\<close>) and the
  values of the instance at that moment (\<open>dr_value_at_settle\<close>), and, since the tasks
  outlive a rejection, the values and the outcome of every task once all of them have
  settled (\<open>dr_value\<close>, \<open>dr_tasks\<close>), with all the calls issued.
\<close>

record deploy_result =
  dr_value :: props
  dr_calls :: "call list"
  dr_tasks :: "error option list"
  dr_error :: "error option"
  dr_value_at_settle :: props

definition deployEvents ::
  "(string \<Rightarrow> bool) \<Rightarrow> (InstanceElement \<Rightarrow> InstanceElement) \<Rightarrow> TypeElement \<Rightarrow> client
     \<Rightarrow> InstanceElement Change \<Rightarrow> deploy_result" where
  "deployEvents numeric resolve fieldType cl change =
     (let instance = getChangeData change
      in case getEventChanges fieldType (resolveChangeElement resolve change) of
           Inl e \<Rightarrow>
             \<lparr>dr_value = inst_value instance, dr_calls = [], dr_tasks = [], dr_error = Some e,
              dr_value_at_settle = inst_value instance\<rparr>
         | Inr eventChanges \<Rightarrow>
             (case start_all \<lparr>ds_value = inst_value instance, ds_calls = []\<rparr> eventChanges of
                (st1, ps) \<Rightarrow>
                  (let rs = foldl (deliver numeric cl)
                              \<lparr>rs_state = st1, rs_tasks = ps,
                               rs_promise = promise_after_start st1 ps\<rparr>
                              (c_order cl @ [0..<length ps] @ [0..<length ps])
                   in \<lparr>dr_value = ds_value (rs_state rs),
                       dr_calls = ds_calls (rs_state rs),
                       dr_tasks = map settled_outcome (rs_tasks rs),
                       dr_error = (case rs_promise rs of Some (r, v) \<Rightarrow> r | None \<Rightarrow> None),
                       dr_value_at_settle =
                         (case rs_promise rs of
                            Some (r, v) \<Rightarrow> v
                          | None \<Rightarrow> ds_value (rs_state rs))\<rparr>)))"

section \<open>Deploying changes one by one\<close>

record 'c DeployResult =
  appliedChanges :: "'c list"
  errors :: "error list"

text \<open>Modelled from the spec: \<open>deployChanges\<close> of the standard deployment, which is not
  among the sources: "run this operation per item, collecting per-item success/failure
  into a combined result". The operation works on the change in place, so it gives back
  the change as it left it, with its outcome.\<close>

fun deployChanges :: "('c \<Rightarrow> 'c \<times> error option) \<Rightarrow> 'c list \<Rightarrow> 'c DeployResult" where
  "deployChanges deployChangeFunc [] = \<lparr>appliedChanges = [], errors = []\<rparr>"
| "deployChanges deployChangeFunc (c # cs) =
     (let r = deployChanges deployChangeFunc cs
      in case deployChangeFunc c of
           (c', None) \<Rightarrow> r\<lparr>appliedChanges := c' # appliedChanges r\<rparr>
         | (c', Some e) \<Rightarrow> r\<lparr>errors := e # errors r\<rparr>)"



section \<open>The notification scheme filter\<close>

text \<open>
  The filter sees changes of any element; only instances are looked into. The type name
  constants of the adapter are parameters, as is \<open>Number\<close>. The filter mutates the
  instance of a change (its \<open>getChangeData\<close> side) in place; here it returns the changes.
\<close>

datatype Element = InstanceElem InstanceElement | OtherElem string

fun isInstanceChange :: "Element Change \<Rightarrow> bool" where
  "isInstanceChange c = (case getChangeData c of InstanceElem i \<Rightarrow> True | OtherElem n \<Rightarrow> False)"

fun isAdditionOrRemovalChange :: "'a Change \<Rightarrow> bool" where
  "isAdditionOrRemovalChange c = (isAdditionChange c \<or> isRemovalChange c)"

fun isRemovalOrModificationChange :: "'a Change \<Rightarrow> bool" where
  "isRemovalOrModificationChange c = (isRemovalChange c \<or> isModificationChange c)"

text \<open>\<open>isInstanceChange(change) && getChangeData(change).elemID.typeName === name\<close>.\<close>

definition is_scheme_change :: "string \<Rightarrow> Element Change \<Rightarrow> bool" where
  "is_scheme_change schemeTypeName c =
     (case getChangeData c of
        InstanceElem i \<Rightarrow> ot_name (elem_type i) = schemeTypeName
      | OtherElem n \<Rightarrow> False)"

fun map_change_data :: "('a \<Rightarrow> 'a) \<Rightarrow> 'a Change \<Rightarrow> 'a Change" where
  "map_change_data f (Addition a) = Addition (f a)"
| "map_change_data f (Removal b) = Removal (f b)"
| "map_change_data f (Modification b a) = Modification b (f a)"

text \<open>\<open>Joi.object({ eventType: Joi.any() }).unknown(true)\<close>, not required.\<close>

definition isNotificationSchemeEvent :: "jv \<Rightarrow> bool" where
  "isNotificationSchemeEvent =
     joi_optional (joi_object_unknown [(''eventType'', \<lambda>v. True)])"

subsection \<open>Pre-transform\<close>

fun pre_notification :: "jv \<Rightarrow> jv" where
  "pre_notification (JObj kvs) =
     (if obj_get kvs ''type'' \<noteq> JUndefined
      then JObj (obj_set kvs ''notificationType'' (obj_get kvs ''type''))
      else JObj kvs)"
| "pre_notification v = v"

text \<open>The inner \<open>forEach\<close>: reading \<open>type\<close> of \<open>null\<close> or \<open>undefined\<close> raises and ends the
  loop, with the notifications before it already changed.\<close>

fun pre_notifications :: "jv list \<Rightarrow> jv list" where
  "pre_notifications [] = []"
| "pre_notifications (n # ns) =
     (if nullish n then n # ns else pre_notification n # pre_notifications ns)"

text \<open>The callback on one scheme event. It is an \<open>async\<close> function whose promise nobody
  awaits: when it raises, what it did so far stays and the filter goes on.\<close>

fun pre_event :: "jv \<Rightarrow> jv" where
  "pre_event (JObj kvs) =
     (if obj_get kvs ''eventType'' \<noteq> JUndefined
      then
        (let kvs1 = obj_set kvs ''event'' (obj_get kvs ''eventType'')
         in case obj_get kvs1 ''notifications'' of
              JArr ns \<Rightarrow> JObj (obj_set kvs1 ''notifications'' (JArr (pre_notifications ns)))
            | _ \<Rightarrow> JObj kvs1)
      else JObj kvs)"
| "pre_event v = v"

definition preDeploy_values :: "bool \<Rightarrow> props \<Rightarrow> error + props" where
  "preDeploy_values removalOrModification v =
     (case (case obj_get v ''notificationSchemeEvents'' of
              JUndefined \<Rightarrow> Inr v
            | JArr evs \<Rightarrow>
                Inr (obj_set v ''notificationSchemeEvents''
                       (JArr (map (\<lambda>e. if isNotificationSchemeEvent e then pre_event e else e) evs)))
            | _ \<Rightarrow> Inl TypeError) of
        Inl e \<Rightarrow> Inl e
      | Inr v1 \<Rightarrow>
          Inr (if removalOrModification then obj_set v1 ''schemeId'' (obj_get v1 ''id'') else v1))"

fun on_instance ::
  "string \<Rightarrow> (Element Change \<Rightarrow> props \<Rightarrow> error + props) \<Rightarrow> Element Change \<Rightarrow> error + Element Change" where
  "on_instance schemeTypeName f c =
     (case getChangeData c of
        InstanceElem i \<Rightarrow>
          (if ot_name (elem_type i) = schemeTypeName
           then (case f c (inst_value i) of
                   Inl e \<Rightarrow> Inl e
                 | Inr v \<Rightarrow> Inr (map_change_data (\<lambda>d. InstanceElem (i\<lparr>inst_value := v\<rparr>)) c))
           else Inr c)
      | OtherElem n \<Rightarrow> Inr c)"

definition preDeploy :: "bool \<Rightarrow> string \<Rightarrow> Element Change list \<Rightarrow> error + Element Change list" where
  "preDeploy isDataCenter schemeTypeName changes =
     (if isDataCenter then Inr changes
      else map_result
             (on_instance schemeTypeName
                (\<lambda>c. preDeploy_values (isRemovalOrModificationChange c)))
             changes)"

subsection \<open>Post-transform\<close>

fun on_notification :: "jv \<Rightarrow> jv" where
  "on_notification (JObj kvs) = JObj (obj_del kvs ''notificationType'')"
| "on_notification v = v"

text \<open>The inner \<open>forEach\<close> and whether it ran to its end.\<close>

fun on_notifications :: "jv list \<Rightarrow> jv list \<times> bool" where
  "on_notifications [] = ([], True)"
| "on_notifications (n # ns) =
     (if nullish n then (n # ns, False)
      else case on_notifications ns of (ns', completed) \<Rightarrow> (on_notification n # ns', completed))"

text \<open>\<open>delete event.event\<close> comes after the inner loop, and is not reached when that
  raises.\<close>

fun on_event :: "jv \<Rightarrow> jv" where
  "on_event (JObj kvs) =
     (case obj_get kvs ''notifications'' of
        JUndefined \<Rightarrow> JObj (obj_del kvs ''event'')
      | JNull \<Rightarrow> JObj (obj_del kvs ''event'')
      | JArr ns \<Rightarrow>
          (case on_notifications ns of
             (ns', True) \<Rightarrow> JObj (obj_del (obj_set kvs ''notifications'' (JArr ns')) ''event'')
           | (ns', False) \<Rightarrow> JObj (obj_set kvs ''notifications'' (JArr ns')))
      | _ \<Rightarrow> JObj kvs)"
| "on_event v = v"

definition onDeploy_values :: "(jv \<Rightarrow> jv) \<Rightarrow> bool \<Rightarrow> props \<Rightarrow> error + props" where
  "onDeploy_values Number removalOrModification v0 =
     (let v = obj_set v0 ''id'' (Number (obj_get v0 ''id''))
      in case (case obj_get v ''notificationSchemeEvents'' of
                 JUndefined \<Rightarrow> Inr v
               | JArr evs \<Rightarrow>
                   Inr (obj_set v ''notificationSchemeEvents''
                          (JArr (map (\<lambda>e. if isNotificationSchemeEvent e then on_event e else e) evs)))
               | _ \<Rightarrow> Inl TypeError) of
           Inl e \<Rightarrow> Inl e
         | Inr v1 \<Rightarrow> Inr (if removalOrModification then obj_del v1 ''schemeId'' else v1))"

definition onDeploy ::
  "bool \<Rightarrow> (jv \<Rightarrow> jv) \<Rightarrow> string \<Rightarrow> Element Change list \<Rightarrow> error + Element Change list" where
  "onDeploy isDataCenter Number schemeTypeName changes =
     (if isDataCenter then Inr changes
      else map_result
             (on_instance schemeTypeName
                (\<lambda>c. onDeploy_values Number (isRemovalOrModificationChange c)))
             changes)"

subsection \<open>Deploy\<close>

record filter_result =
  leftoverChanges :: "Element Change list"
  deployResult :: "Element Change DeployResult"

text \<open>
  \<open>deploy\<close>. The two operations it hands to \<open>deployChanges\<close> are parameters:
  \<open>defaultDeployChange\<close> with the fields to ignore, and \<open>deployEvents\<close> with the client.
  The applied changes of the first round are the very objects the second round works
  on, so they show what the second round did to them.
\<close>

definition deploy ::
  "bool \<Rightarrow> string \<Rightarrow> string
     \<Rightarrow> (Element Change \<Rightarrow> string list \<Rightarrow> Element Change \<times> error option)
     \<Rightarrow> (Element Change \<Rightarrow> Element Change \<times> error option)
     \<Rightarrow> Element Change list \<Rightarrow> filter_result" where
  "deploy isDataCenter schemeTypeName eventTypeName defaultDeployChange deployEventsOf changes =
     (if isDataCenter
      then \<lparr>leftoverChanges = changes,
            deployResult = \<lparr>appliedChanges = [], errors = []\<rparr>\<rparr>
      else
        (let relevantChanges = filter (is_scheme_change schemeTypeName) changes;
             leftover = filter (\<lambda>c. \<not> is_scheme_change schemeTypeName c) changes;
             result = deployChanges
                        (\<lambda>change. defaultDeployChange change
                           (if isAdditionOrRemovalChange change then [] else [eventTypeName]))
                        relevantChanges;
             modified = filter isInstanceChange
                          (filter isModificationChange (appliedChanges result));
             eventsDeployResult = deployChanges deployEventsOf modified
         in \<lparr>leftoverChanges = leftover,
             deployResult =
               \<lparr>appliedChanges =
                   map (\<lambda>c. if isModificationChange c \<and> isInstanceChange c
                            then fst (deployEventsOf c) else c)
                     (appliedChanges result)
                   @ appliedChanges eventsDeployResult,
                 errors = errors result @ errors eventsDeployResult\<rparr>\<rparr>))"

subsection \<open>Canonical declarative shape\<close>

text \<open>The declarative shape of a scheme's values: the scheme events, if any, are objects
  without the wire field \<open>event\<close>, their notifications, if any, are objects without the
  wire field \<open>notificationType\<close>, and the values have no \<open>schemeId\<close>. \<open>coerce_id\<close> is
  \<open>value.id = Number(value.id)\<close>.\<close>

fun has_key :: "props \<Rightarrow> string \<Rightarrow> bool" where
  "has_key [] k = False"
| "has_key ((k', v) # kvs) k = (k' = k \<or> has_key kvs k)"

fun canonical_notification :: "jv \<Rightarrow> bool" where
  "canonical_notification (JObj kvs) = (\<not> has_key kvs ''notificationType'')"
| "canonical_notification v = False"

fun canonical_event :: "jv \<Rightarrow> bool" where
  "canonical_event (JObj kvs) =
     (\<not> has_key kvs ''event''
      \<and> (case obj_get kvs ''notifications'' of
            JUndefined \<Rightarrow> True
          | JArr ns \<Rightarrow> list_all canonical_notification ns
          | _ \<Rightarrow> False))"
| "canonical_event v = False"

definition canonical_values :: "props \<Rightarrow> bool" where
  "canonical_values v =
     (\<not> has_key v ''schemeId''
      \<and> (case obj_get v ''notificationSchemeEvents'' of
            JUndefined \<Rightarrow> True
          | JArr evs \<Rightarrow> list_all canonical_event evs
          | _ \<Rightarrow> False))"

definition coerce_id :: "(jv \<Rightarrow> jv) \<Rightarrow> props \<Rightarrow> props" where
  "coerce_id Number v = obj_set v ''id'' (Number (obj_get v ''id''))"

definition canonical_change :: "string \<Rightarrow> Element Change \<Rightarrow> bool" where
  "canonical_change schemeTypeName c =
     (case getChangeData c of
        InstanceElem i \<Rightarrow>
          (if ot_name (elem_type i) = schemeTypeName then canonical_values (inst_value i) else True)
      | OtherElem n \<Rightarrow> True)"

definition coerce_change :: "(jv \<Rightarrow> jv) \<Rightarrow> string \<Rightarrow> Element Change \<Rightarrow> Element Change" where
  "coerce_change Number schemeTypeName c =
     (case getChangeData c of
        InstanceElem i \<Rightarrow>
          (if ot_name (elem_type i) = schemeTypeName
           then map_change_data
                  (\<lambda>d. InstanceElem (i\<lparr>inst_value := coerce_id Number (inst_value i)\<rparr>)) c
           else c)
      | OtherElem n \<Rightarrow> c)"

section \<open>The create call in words\<close>

text \<open>The create call as the interface describes it: a \<open>PUT\<close> on
  \<open>/notificationscheme/{schemeId}/notification\<close> with the body
  \<open>{ notificationSchemeEvents: [{ event: { id }, notifications: [{ notificationType,
  parameter? }] }] }\<close>, the notifications being those of all scheme events of the
  snapshot that have the entry's event type.\<close>

definition wire_descriptor :: "jv \<Rightarrow> jv" where
  "wire_descriptor n =
     JObj ((case event_type_name (js_prop n ''notificationType'') of
              JUndefined \<Rightarrow> []
            | t \<Rightarrow> [(''notificationType'', t)])
           @ (case js_prop n ''parameter'' of
                JUndefined \<Rightarrow> []
              | p \<Rightarrow> [(''parameter'', p)]))"

definition create_call :: "jv \<Rightarrow> jv \<Rightarrow> jv list \<Rightarrow> call" where
  "create_call schemeId eventType descriptors =
     Put (''/rest/api/3/notificationscheme/'' @ js_to_string schemeId @ ''/notification'')
       (JObj [(''notificationSchemeEvents'',
               JArr [JObj [(''event'', JObj [(''id'', eventType)]),
                           (''notifications'', JArr (map wire_descriptor descriptors))]])])"

definition same_type_notifications :: "jv list \<Rightarrow> EventValues \<Rightarrow> jv list" where
  "same_type_notifications evs e =
     concat (map (\<lambda>(i, ev). flat1 (js_prop ev ''notifications''))
       (filter (\<lambda>(i, ev). identical i (js_prop ev ''eventType'') (ev_source e) (ev_eventType e))
          (enumerate 0 evs)))"

text \<open>A scheme event that holds a list of notification descriptors.\<close>

fun is_object :: "jv \<Rightarrow> bool" where
  "is_object (JObj kvs) = True"
| "is_object v = False"

fun has_descriptors :: "jv \<Rightarrow> bool" where
  "has_descriptors (JObj kvs) =
     (case obj_get kvs ''notifications'' of JArr ns \<Rightarrow> list_all is_object ns | _ \<Rightarrow> False)"
| "has_descriptors v = False"

section \<open>Auxiliary notions\<close>

fun is_put :: "call \<Rightarrow> bool" where
  "is_put (Put url d) = True"
| "is_put _ = False"

fun is_delete :: "call \<Rightarrow> bool" where
  "is_delete (Delete url) = True"
| "is_delete _ = False"

text \<open>The create call of an added entry, when its body can be built.\<close>

definition put_call :: "InstanceElement \<Rightarrow> call list" where
  "put_call eventInstance =
     (case put_data eventInstance of
        Inl e \<Rightarrow> []
      | Inr d \<Rightarrow> [Put (put_url (obj_get (inst_value eventInstance) ''schemeId'')) d])"

fun distinct_keys :: "props \<Rightarrow> bool" where
  "distinct_keys [] = True"
| "distinct_keys ((k, v) # kvs) = (\<not> has_key kvs k \<and> distinct_keys kvs)"

text \<open>Every instance of a list has the given type.\<close>

definition typed :: "ObjectType \<Rightarrow> InstanceElement list \<Rightarrow> bool" where
  "typed t xs = list_all (\<lambda>x. elem_type x = t) xs"

section \<open>Example schemes\<close>

definition eventObjectType :: ObjectType where
  "eventObjectType = \<lparr>ot_adapter = ''jira'', ot_name = ''NotificationSchemeEvent''\<rparr>"

definition schemeObjectType :: ObjectType where
  "schemeObjectType = \<lparr>ot_adapter = ''jira'', ot_name = ''NotificationScheme''\<rparr>"

text \<open>A scheme with one event whose two notifications differ (one has no parameter,
  the other the parameter \<open>undefined\<close> as a string) and share the key
  \<open>10-User-undefined\<close>.\<close>

definition scheme_shared_key :: InstanceElement where
  "scheme_shared_key =
     \<lparr>elem_name = ''scheme'', elem_type = schemeObjectType,
      inst_value =
        [(''id'', JNum 7),
         (''notificationSchemeEvents'',
          JArr [JObj [(''eventType'', JNum 10),
                      (''notifications'',
                       JArr [JObj [(''type'', JStr ''User'')],
                             JObj [(''type'', JStr ''User''),
                                   (''parameter'', JStr ''undefined'')]])]])]\<rparr>"

definition scheme_before :: InstanceElement where
  "scheme_before =
     \<lparr>elem_name = ''scheme'', elem_type = schemeObjectType,
      inst_value =
        [(''id'', JNum 7),
         (''notificationSchemeEvents'',
          JArr [JObj [(''eventType'', JNum 10),
                      (''notifications'',
                       JArr [JObj [(''type'', JStr ''User'')],
                             JObj [(''type'', JStr ''Group''),
                                   (''parameter'', JStr ''admins'')]])]]),
         (''notificationIds'',
          JObj [(''10-User-undefined'', JNum 100), (''10-Group-admins'', JNum 101)])]\<rparr>"

definition scheme_after :: InstanceElement where
  "scheme_after =
     \<lparr>elem_name = ''scheme'', elem_type = schemeObjectType,
      inst_value =
        [(''id'', JNum 7),
         (''notificationSchemeEvents'',
          JArr [JObj [(''eventType'', JNum 10),
                      (''notifications'', JArr [JObj [(''type'', JStr ''User'')]])],
                JObj [(''eventType'', JNum 11),
                      (''notifications'', JArr [JObj [(''type'', JStr ''User'')]])]]),
         (''notificationIds'',
          JObj [(''10-User-undefined'', JNum 100), (''10-Group-admins'', JNum 101)])]\<rparr>"

text \<open>The event instances these schemes project to.\<close>

definition entry_10_User :: InstanceElement where
  "entry_10_User =
     \<lparr>elem_name = ''10-User-undefined'', elem_type = eventObjectType,
      inst_value =
        [(''event'', JObj [(''id'', JNum 10)]),
         (''notifications'',
          JArr [JObj [(''type'', JStr ''User'')],
                JObj [(''type'', JStr ''User''), (''parameter'', JStr ''undefined'')]]),
         (''schemeId'', JNum 7), (''name'', JStr ''10-User-undefined''),
         (''eventTypeIds'', JNum 10), (''type'', JStr ''User'')]\<rparr>"

definition entry_10_User_undefined :: InstanceElement where
  "entry_10_User_undefined =
     \<lparr>elem_name = ''10-User-undefined'', elem_type = eventObjectType,
      inst_value =
        [(''event'', JObj [(''id'', JNum 10)]),
         (''notifications'',
          JArr [JObj [(''type'', JStr ''User'')],
                JObj [(''type'', JStr ''User''), (''parameter'', JStr ''undefined'')]]),
         (''schemeId'', JNum 7), (''name'', JStr ''10-User-undefined''),
         (''eventTypeIds'', JNum 10), (''type'', JStr ''User''),
         (''User'', JStr ''undefined'')]\<rparr>"

definition before_10_User :: InstanceElement where
  "before_10_User =
     \<lparr>elem_name = ''10-User-undefined'', elem_type = eventObjectType,
      inst_value =
        [(''event'', JObj [(''id'', JNum 10)]),
         (''notifications'',
          JArr [JObj [(''type'', JStr ''User'')],
                JObj [(''type'', JStr ''Group''), (''parameter'', JStr ''admins'')]]),
         (''id'', JNum 100), (''schemeId'', JNum 7), (''name'', JStr ''10-User-undefined''),
         (''eventTypeIds'', JNum 10), (''type'', JStr ''User'')]\<rparr>"

definition before_10_Group :: InstanceElement where
  "before_10_Group =
     \<lparr>elem_name = ''10-Group-admins'', elem_type = eventObjectType,
      inst_value =
        [(''event'', JObj [(''id'', JNum 10)]),
         (''notifications'',
          JArr [JObj [(''type'', JStr ''User'')],
                JObj [(''type'', JStr ''Group''), (''parameter'', JStr ''admins'')]]),
         (''id'', JNum 101), (''schemeId'', JNum 7), (''name'', JStr ''10-Group-admins''),
         (''eventTypeIds'', JNum 10), (''type'', JStr ''Group''),
         (''Group'', JStr ''admins'')]\<rparr>"

definition after_10_User :: InstanceElement where
  "after_10_User =
     \<lparr>elem_name = ''10-User-undefined'', elem_type = eventObjectType,
      inst_value =
        [(''event'', JObj [(''id'', JNum 10)]),
         (''notifications'', JArr [JObj [(''type'', JStr ''User'')]]),
         (''id'', JNum 100), (''schemeId'', JNum 7), (''name'', JStr ''10-User-undefined''),
         (''eventTypeIds'', JNum 10), (''type'', JStr ''User'')]\<rparr>"

definition after_11_User :: InstanceElement where
  "after_11_User =
     \<lparr>elem_name = ''11-User-undefined'', elem_type = eventObjectType,
      inst_value =
        [(''event'', JObj [(''id'', JNum 11)]),
         (''notifications'', JArr [JObj [(''type'', JStr ''User'')]]),
         (''schemeId'', JNum 7), (''name'', JStr ''11-User-undefined''),
         (''eventTypeIds'', JNum 11), (''type'', JStr ''User'')]\<rparr>"

text \<open>A new scheme with three bindings on two event types, as it stands after the
  pre-transform, the page the service answers the read-back with, and a client whose
  calls all succeed.\<close>

definition scheme_three :: InstanceElement where
  "scheme_three =
     \<lparr>elem_name = ''scheme'', elem_type = schemeObjectType,
      inst_value =
        [(''id'', JNum 7),
         (''notificationSchemeEvents'',
          JArr [JObj [(''eventType'', JNum 10),
                      (''notifications'',
                       JArr [JObj [(''type'', JStr ''User''), (''notificationType'', JStr ''User'')],
                             JObj [(''type'', JStr ''Group''), (''parameter'', JStr ''admins''),
                                   (''notificationType'', JStr ''Group'')]]),
                      (''event'', JNum 10)],
                JObj [(''eventType'', JNum 11),
                      (''notifications'',
                       JArr [JObj [(''type'', JStr ''User''), (''notificationType'', JStr ''User'')]]),
                      (''event'', JNum 11)]])]\<rparr>"

definition page_three :: jv where
  "page_three =
     JObj [(''total'', JNum 1),
           (''values'',
            JArr [JObj [(''id'', JNum 7),
                        (''notificationSchemeEvents'',
                         JArr [JObj [(''event'', JObj [(''id'', JNum 10)]),
                                     (''notifications'',
                                      JArr [JObj [(''id'', JNum 501),
                                                  (''notificationType'', JStr ''User'')],
                                            JObj [(''id'', JNum 502),
                                                  (''notificationType'', JStr ''Group''),
                                                  (''parameter'', JStr ''admins'')]])],
                               JObj [(''event'', JObj [(''id'', JNum 11)]),
                                     (''notifications'',
                                      JArr [JObj [(''id'', JNum 503),
                                                  (''notificationType'', JStr ''User'')]])]])]])]"

definition client_three :: client where
  "client_three =
     \<lparr>c_delete = (\<lambda>i url. True), c_put = (\<lambda>i url d. True),
      c_getSinglePage = (\<lambda>i url q. Some page_three), c_order = []\<rparr>"

text \<open>The scheme events of the new scheme, and the entries it projects to.\<close>

definition three_events :: "jv list" where
  "three_events =
     [JObj [(''eventType'', JNum 10),
            (''notifications'',
             JArr [JObj [(''type'', JStr ''User''), (''notificationType'', JStr ''User'')],
                   JObj [(''type'', JStr ''Group''), (''parameter'', JStr ''admins''),
                         (''notificationType'', JStr ''Group'')]]),
            (''event'', JNum 10)],
      JObj [(''eventType'', JNum 11),
            (''notifications'',
             JArr [JObj [(''type'', JStr ''User''), (''notificationType'', JStr ''User'')]]),
            (''event'', JNum 11)]]"

definition three_entries :: "EventValues list" where
  "three_entries =
     [\<lparr>ev_eventType = JNum 10, ev_type = JStr ''User'', ev_parameter = JUndefined,
       ev_id = JUndefined, ev_source = 0\<rparr>,
      \<lparr>ev_eventType = JNum 10, ev_type = JStr ''Group'', ev_parameter = JStr ''admins'',
       ev_id = JUndefined, ev_source = 0\<rparr>,
      \<lparr>ev_eventType = JNum 11, ev_type = JStr ''User'', ev_parameter = JUndefined,
       ev_id = JUndefined, ev_source = 1\<rparr>]"

text \<open>The event instances the new scheme projects to.\<close>

definition three_10_User :: InstanceElement where
  "three_10_User =
     \<lparr>elem_name = ''10-User-undefined'', elem_type = eventObjectType,
      inst_value =
        [(''event'', JObj [(''id'', JNum 10)]),
         (''notifications'',
          JArr [JObj [(''type'', JStr ''User''), (''notificationType'', JStr ''User'')],
                JObj [(''type'', JStr ''Group''), (''parameter'', JStr ''admins''),
                      (''notificationType'', JStr ''Group'')]]),
         (''schemeId'', JNum 7), (''name'', JStr ''10-User-undefined''),
         (''eventTypeIds'', JNum 10), (''type'', JStr ''User'')]\<rparr>"

definition three_10_Group :: InstanceElement where
  "three_10_Group =
     \<lparr>elem_name = ''10-Group-admins'', elem_type = eventObjectType,
      inst_value =
        [(''event'', JObj [(''id'', JNum 10)]),
         (''notifications'',
          JArr [JObj [(''type'', JStr ''User''), (''notificationType'', JStr ''User'')],
                JObj [(''type'', JStr ''Group''), (''parameter'', JStr ''admins''),
                      (''notificationType'', JStr ''Group'')]]),
         (''schemeId'', JNum 7), (''name'', JStr ''10-Group-admins''),
         (''eventTypeIds'', JNum 10), (''type'', JStr ''Group''),
         (''Group'', JStr ''admins'')]\<rparr>"

definition three_11_User :: InstanceElement where
  "three_11_User =
     \<lparr>elem_name = ''11-User-undefined'', elem_type = eventObjectType,
      inst_value =
        [(''event'', JObj [(''id'', JNum 11)]),
         (''notifications'',
          JArr [JObj [(''type'', JStr ''User''), (''notificationType'', JStr ''User'')]]),
         (''schemeId'', JNum 7), (''name'', JStr ''11-User-undefined''),
         (''eventTypeIds'', JNum 11), (''type'', JStr ''User'')]\<rparr>"

definition data_event_10 :: jv where
  "data_event_10 =
     JObj [(''notificationSchemeEvents'',
            JArr [JObj [(''event'', JObj [(''id'', JNum 10)]),
                        (''notifications'',
                         JArr [JObj [(''notificationType'', JStr ''User'')],
                               JObj [(''notificationType'', JStr ''Group''),
                                     (''parameter'', JStr ''admins'')]])]])]"

definition put_event_10 :: call where
  "put_event_10 = Put ''/rest/api/3/notificationscheme/7/notification'' data_event_10"

definition put_event_11 :: call where
  "put_event_11 =
     Put ''/rest/api/3/notificationscheme/7/notification''
       (JObj [(''notificationSchemeEvents'',
               JArr [JObj [(''event'', JObj [(''id'', JNum 11)]),
                           (''notifications'',
                            JArr [JObj [(''notificationType'', JStr ''User'')]])]])])"

text \<open>A scheme that sends one event to two e-mail addresses. The first binding is
  deployed and has the remote id 555; the second is new. The read-back page lists both,
  after a notification of another channel type, and after an e-mail notification of
  another event.\<close>

definition scheme_mail_before :: InstanceElement where
  "scheme_mail_before =
     \<lparr>elem_name = ''scheme'', elem_type = schemeObjectType,
      inst_value =
        [(''id'', JNum 7),
         (''notificationSchemeEvents'',
          JArr [JObj [(''eventType'', JNum 10),
                      (''notifications'',
                       JArr [JObj [(''type'', JStr ''EmailAddress''),
                                   (''parameter'', JStr ''a@x.org''),
                                   (''notificationType'', JStr ''EmailAddress'')]]),
                      (''event'', JNum 10)]]),
         (''notificationIds'', JObj [(''10-EmailAddress-a@x.org'', JNum 555)]),
         (''schemeId'', JNum 7)]\<rparr>"

definition scheme_mail_after :: InstanceElement where
  "scheme_mail_after =
     \<lparr>elem_name = ''scheme'', elem_type = schemeObjectType,
      inst_value =
        [(''id'', JNum 7),
         (''notificationSchemeEvents'',
          JArr [JObj [(''eventType'', JNum 10),
                      (''notifications'',
                       JArr [JObj [(''type'', JStr ''EmailAddress''),
                                   (''parameter'', JStr ''a@x.org''),
                                   (''notificationType'', JStr ''EmailAddress'')],
                             JObj [(''type'', JStr ''EmailAddress''),
                                   (''parameter'', JStr ''b@x.org''),
                                   (''notificationType'', JStr ''EmailAddress'')]]),
                      (''event'', JNum 10)]]),
         (''notificationIds'', JObj [(''10-EmailAddress-a@x.org'', JNum 555)]),
         (''schemeId'', JNum 7)]\<rparr>"

definition page_mail :: jv where
  "page_mail =
     JObj [(''total'', JNum 1),
           (''values'',
            JArr [JObj [(''id'', JNum 7),
                        (''notificationSchemeEvents'',
                         JArr [JObj [(''event'', JObj [(''id'', JNum 11)]),
                                     (''notifications'',
                                      JArr [JObj [(''id'', JNum 700),
                                                  (''notificationType'', JStr ''EmailAddress''),
                                                  (''parameter'', JStr ''z@x.org'')]])],
                               JObj [(''event'', JObj [(''id'', JNum 10)]),
                                     (''notifications'',
                                      JArr [JObj [(''id'', JNum 554),
                                                  (''notificationType'', JStr ''User'')],
                                            JObj [(''id'', JNum 555),
                                                  (''notificationType'', JStr ''EmailAddress''),
                                                  (''parameter'', JStr ''a@x.org'')],
                                            JObj [(''id'', JNum 556),
                                                  (''notificationType'', JStr ''EmailAddress''),
                                                  (''parameter'', JStr ''b@x.org'')]])]])]])]"

definition client_mail :: client where
  "client_mail =
     \<lparr>c_delete = (\<lambda>i url. True), c_put = (\<lambda>i url d. True),
      c_getSinglePage = (\<lambda>i url q. Some page_mail), c_order = []\<rparr>"

definition mail_b :: InstanceElement where
  "mail_b =
     \<lparr>elem_name = ''10-EmailAddress-b@x.org'', elem_type = eventObjectType,
      inst_value =
        [(''event'', JObj [(''id'', JNum 10)]),
         (''notifications'',
          JArr [JObj [(''type'', JStr ''EmailAddress''), (''parameter'', JStr ''a@x.org''),
                      (''notificationType'', JStr ''EmailAddress'')],
                JObj [(''type'', JStr ''EmailAddress''), (''parameter'', JStr ''b@x.org''),
                      (''notificationType'', JStr ''EmailAddress'')]]),
         (''schemeId'', JNum 7), (''name'', JStr ''10-EmailAddress-b@x.org''),
         (''eventTypeIds'', JNum 10), (''type'', JStr ''EmailAddress''),
         (''EmailAddress'', JStr ''b@x.org'')]\<rparr>"

definition mail_put_data :: jv where
  "mail_put_data =
     JObj [(''notificationSchemeEvents'',
            JArr [JObj [(''event'', JObj [(''id'', JNum 10)]),
                        (''notifications'',
                         JArr [JObj [(''notificationType'', JStr ''EmailAddress''),
                                     (''parameter'', JStr ''a@x.org'')],
                               JObj [(''notificationType'', JStr ''EmailAddress''),
                                     (''parameter'', JStr ''b@x.org'')]])]])]"

text \<open>Read-back pages for the new e-mail binding: one whose event has no \<open>event\<close>
  reference, which fails validation, an empty page, and a valid one without a notification
  of the channel type.\<close>

definition page_invalid :: jv where
  "page_invalid =
     JObj [(''total'', JNum 1),
           (''values'',
            JArr [JObj [(''id'', JNum 7),
                        (''notificationSchemeEvents'',
                         JArr [JObj [(''notifications'',
                                      JArr [JObj [(''id'', JNum 556),
                                                  (''notificationType'', JStr ''EmailAddress''),
                                                  (''parameter'', JStr ''b@x.org'')]])]])]])]"

definition client_invalid :: client where
  "client_invalid =
     \<lparr>c_delete = (\<lambda>i url. True), c_put = (\<lambda>i url d. True),
      c_getSinglePage = (\<lambda>i url q. Some page_invalid), c_order = []\<rparr>"

definition page_empty :: jv where
  "page_empty = JObj [(''total'', JNum 0), (''values'', JArr [])]"

definition client_empty :: client where
  "client_empty =
     \<lparr>c_delete = (\<lambda>i url. True), c_put = (\<lambda>i url d. True),
      c_getSinglePage = (\<lambda>i url q. Some page_empty), c_order = []\<rparr>"

definition page_no_match :: jv where
  "page_no_match =
     JObj [(''total'', JNum 1),
           (''values'',
            JArr [JObj [(''id'', JNum 7),
                        (''notificationSchemeEvents'',
                         JArr [JObj [(''event'', JObj [(''id'', JNum 10)]),
                                     (''notifications'',
                                      JArr [JObj [(''id'', JNum 600),
                                                  (''notificationType'', JStr ''User'')]])]])]])]"

definition client_no_match :: client where
  "client_no_match =
     \<lparr>c_delete = (\<lambda>i url. True), c_put = (\<lambda>i url d. True),
      c_getSinglePage = (\<lambda>i url q. Some page_no_match), c_order = []\<rparr>"




text \<open>A scheme in declarative shape whose id is still a string, what the pre-transform
  makes of it in a modification, and what the post-transform gives back.\<close>

definition example_Number :: "jv \<Rightarrow> jv" where
  "example_Number v = (if v = JStr ''7'' then JNum 7 else v)"

definition scheme_canonical :: InstanceElement where
  "scheme_canonical =
     \<lparr>elem_name = ''scheme'', elem_type = schemeObjectType,
      inst_value =
        [(''id'', JStr ''7''), (''name'', JStr ''Default''),
         (''notificationSchemeEvents'',
          JArr [JObj [(''eventType'', JNum 10),
                      (''notifications'',
                       JArr [JObj [(''type'', JStr ''User'')],
                             JObj [(''type'', JStr ''Group''),
                                   (''parameter'', JStr ''admins'')]])]])]\<rparr>"

definition scheme_wire :: InstanceElement where
  "scheme_wire =
     \<lparr>elem_name = ''scheme'', elem_type = schemeObjectType,
      inst_value =
        [(''id'', JStr ''7''), (''name'', JStr ''Default''),
         (''notificationSchemeEvents'',
          JArr [JObj [(''eventType'', JNum 10),
                      (''notifications'',
                       JArr [JObj [(''type'', JStr ''User''),
                                   (''notificationType'', JStr ''User'')],
                             JObj [(''type'', JStr ''Group''),
                                   (''parameter'', JStr ''admins''),
                                   (''notificationType'', JStr ''Group'')]]),
                      (''event'', JNum 10)]]),
         (''schemeId'', JStr ''7'')]\<rparr>"

definition scheme_restored :: InstanceElement where
  "scheme_restored =
     \<lparr>elem_name = ''scheme'', elem_type = schemeObjectType,
      inst_value =
        [(''id'', JNum 7), (''name'', JStr ''Default''),
         (''notificationSchemeEvents'',
          JArr [JObj [(''eventType'', JNum 10),
                      (''notifications'',
                       JArr [JObj [(''type'', JStr ''User'')],
                             JObj [(''type'', JStr ''Group''),
                                   (''parameter'', JStr ''admins'')]])]])]\<rparr>"


section \<open>Properties\<close>

subsection \<open>Identity key\<close>

text \<open>
  C5 (as the code has it). The identity key of an entry is the concatenation
  \<open>eventType + "-" + type + "-" + parameter\<close> of the stringified fields, an absent field
  printing as \<open>undefined\<close>. It is a function of the entry, so repeated projections of an
  unchanged entry give the same key. When exactly one of the three fields changes (the
  parameter, the channel type or the event type), the key changes exactly when the old and
  the new value of that field stringify differently: in particular two different string
  parameters always give different keys.
\<close>

theorem getEventKey_concat_and_single_field:
  "getEventKey e
     = js_to_string (ev_eventType e) @ ''-'' @ js_to_string (ev_type e) @ ''-''
         @ js_to_string (ev_parameter e)
   \<and> js_to_string JUndefined = ''undefined''
   \<and> (ev_eventType e' = ev_eventType e \<and> ev_type e' = ev_type e \<longrightarrow>
        (getEventKey e' \<noteq> getEventKey e)
          = (js_to_string (ev_parameter e') \<noteq> js_to_string (ev_parameter e)))
   \<and> (ev_eventType e' = ev_eventType e \<and> ev_parameter e' = ev_parameter e \<longrightarrow>
        (getEventKey e' \<noteq> getEventKey e)
          = (js_to_string (ev_type e') \<noteq> js_to_string (ev_type e)))
   \<and> (ev_type e' = ev_type e \<and> ev_parameter e' = ev_parameter e \<longrightarrow>
        (getEventKey e' \<noteq> getEventKey e)
          = (js_to_string (ev_eventType e') \<noteq> js_to_string (ev_eventType e)))
   \<and> (ev_eventType e' = ev_eventType e \<and> ev_type e' = ev_type e
        \<and> ev_parameter e' = JStr p' \<and> ev_parameter e = JStr p \<and> p' \<noteq> p \<longrightarrow>
        getEventKey e' \<noteq> getEventKey e)"
  by (simp add: getEventKey_def)

theorem getEventKey_concat_and_single_field_witness:
  "getEventKey \<lparr>ev_eventType = JNum 10, ev_type = JStr ''EmailAddress'',
                 ev_parameter = JStr ''a@x.org'', ev_id = JUndefined, ev_source = 0\<rparr>
     \<noteq> getEventKey \<lparr>ev_eventType = JNum 10, ev_type = JStr ''EmailAddress'',
                 ev_parameter = JStr ''b@x.org'', ev_id = JUndefined, ev_source = 0\<rparr>
   \<and> getEventKey \<lparr>ev_eventType = JNum 10, ev_type = JStr ''User'',
                 ev_parameter = JStr ''b@x.org'', ev_id = JUndefined, ev_source = 0\<rparr>
     \<noteq> getEventKey \<lparr>ev_eventType = JNum 10, ev_type = JStr ''EmailAddress'',
                 ev_parameter = JStr ''b@x.org'', ev_id = JUndefined, ev_source = 0\<rparr>
   \<and> getEventKey \<lparr>ev_eventType = JStr ''11'', ev_type = JStr ''EmailAddress'',
                 ev_parameter = JStr ''b@x.org'', ev_id = JUndefined, ev_source = 0\<rparr>
     \<noteq> getEventKey \<lparr>ev_eventType = JNum 10, ev_type = JStr ''EmailAddress'',
                 ev_parameter = JStr ''b@x.org'', ev_id = JUndefined, ev_source = 0\<rparr>"
proof -
  let ?e = "\<lparr>ev_eventType = JNum 10, ev_type = JStr ''EmailAddress'',
             ev_parameter = JStr ''b@x.org'', ev_id = JUndefined, ev_source = 0\<rparr>"
  have n: "string_of_int 10 = ''10''"
    by code_simp
  have "getEventKey \<lparr>ev_eventType = JNum 10, ev_type = JStr ''EmailAddress'',
                 ev_parameter = JStr ''a@x.org'', ev_id = JUndefined, ev_source = 0\<rparr>
          \<noteq> getEventKey ?e"
    using getEventKey_concat_and_single_field
      [where e = ?e
         and e' = "\<lparr>ev_eventType = JNum 10, ev_type = JStr ''EmailAddress'',
            ev_parameter = JStr ''a@x.org'', ev_id = JUndefined, ev_source = 0\<rparr>",
       THEN conjunct2, THEN conjunct2, THEN conjunct1]
    by simp
  moreover have "getEventKey \<lparr>ev_eventType = JNum 10, ev_type = JStr ''User'',
                 ev_parameter = JStr ''b@x.org'', ev_id = JUndefined, ev_source = 0\<rparr>
          \<noteq> getEventKey ?e"
    using getEventKey_concat_and_single_field
      [where e = ?e
         and e' = "\<lparr>ev_eventType = JNum 10, ev_type = JStr ''User'',
            ev_parameter = JStr ''b@x.org'', ev_id = JUndefined, ev_source = 0\<rparr>",
       THEN conjunct2, THEN conjunct2, THEN conjunct2, THEN conjunct1]
    by simp
  moreover have "getEventKey \<lparr>ev_eventType = JStr ''11'', ev_type = JStr ''EmailAddress'',
                 ev_parameter = JStr ''b@x.org'', ev_id = JUndefined, ev_source = 0\<rparr>
          \<noteq> getEventKey ?e"
    using getEventKey_concat_and_single_field
      [where e = ?e
         and e' = "\<lparr>ev_eventType = JStr ''11'', ev_type = JStr ''EmailAddress'',
            ev_parameter = JStr ''b@x.org'', ev_id = JUndefined, ev_source = 0\<rparr>",
       THEN conjunct2, THEN conjunct2, THEN conjunct2, THEN conjunct2, THEN conjunct1]
    by (simp add: n)
  ultimately show ?thesis by blast
qed

text \<open>
  C5 as stated fails: an absent parameter and the string \<open>undefined\<close> are different
  parameters with one key, and when two fields change at once a dash can move between the
  event type and the channel type.
\<close>

theorem getEventKey_change_same_key:
  "ev_parameter \<lparr>ev_eventType = JNum 10, ev_type = JStr ''User'',
                  ev_parameter = JUndefined, ev_id = JUndefined, ev_source = 0\<rparr>
     \<noteq> ev_parameter \<lparr>ev_eventType = JNum 10, ev_type = JStr ''User'',
                  ev_parameter = JStr ''undefined'', ev_id = JUndefined, ev_source = 0\<rparr>
   \<and> getEventKey \<lparr>ev_eventType = JNum 10, ev_type = JStr ''User'',
                  ev_parameter = JUndefined, ev_id = JUndefined, ev_source = 0\<rparr>
     = getEventKey \<lparr>ev_eventType = JNum 10, ev_type = JStr ''User'',
                  ev_parameter = JStr ''undefined'', ev_id = JUndefined, ev_source = 0\<rparr>
   \<and> getEventKey \<lparr>ev_eventType = JStr ''a-b'', ev_type = JStr ''c'',
                  ev_parameter = JUndefined, ev_id = JUndefined, ev_source = 0\<rparr>
     = getEventKey \<lparr>ev_eventType = JStr ''a'', ev_type = JStr ''b-c'',
                  ev_parameter = JUndefined, ev_id = JUndefined, ev_source = 0\<rparr>"
  by (simp add: getEventKey_def)

subsection \<open>Shape validator\<close>

lemma notification_schema_shape:
  "joi_object_unknown [(''notificationType'', joi_required joi_string)] v = notification_shape v"
  by (cases v) (auto simp: joi_required_def split: jv.splits)

lemma event_ref_schema_shape:
  "joi_required (joi_object_unknown [(''id'', joi_required (joi_number numeric))]) v
     = event_ref_shape numeric v"
  by (cases v) (auto simp: joi_required_def split: jv.splits)

lemma notifications_schema_shape:
  "joi_optional (joi_array_items (joi_object_unknown
       [(''notificationType'', joi_required joi_string)])) v
     = (case v of JUndefined \<Rightarrow> True | JArr ns \<Rightarrow> list_all notification_shape ns | _ \<Rightarrow> False)"
  by (cases v) (auto simp: joi_optional_def list_all_iff notification_schema_shape)

lemma scheme_event_schema_shape:
  "joi_object_unknown
     [(''event'', joi_required (joi_object_unknown [(''id'', joi_required (joi_number numeric))])),
      (''notifications'', joi_optional (joi_array_items (joi_object_unknown
          [(''notificationType'', joi_required joi_string)])))] v
     = scheme_event_shape numeric v"
  by (cases v) (simp_all add: event_ref_schema_shape notifications_schema_shape)

lemma scheme_event_shape_defined: "scheme_event_shape numeric x \<Longrightarrow> x \<noteq> JUndefined"
  by (cases x) auto

lemma isNotificationScheme_iff: "isNotificationScheme numeric v = scheme_shape numeric v"
proof (cases v)
  case (JObj kvs)
  show ?thesis
  proof (cases "obj_get kvs ''notificationSchemeEvents''")
    case (JArr evs)
    have "list_all (\<lambda>x. x \<noteq> JUndefined \<and> scheme_event_shape numeric x) evs
            = list_all (scheme_event_shape numeric) evs"
      by (auto simp: list_all_iff dest: scheme_event_shape_defined)
    with JObj JArr show ?thesis
      by (simp add: isNotificationScheme_def NOTIFICATION_SCHEME_def joi_required_def
          joi_optional_def scheme_event_schema_shape)
  qed (simp_all add: JObj isNotificationScheme_def NOTIFICATION_SCHEME_def joi_required_def
          joi_optional_def)
qed (simp_all add: isNotificationScheme_def NOTIFICATION_SCHEME_def joi_required_def)

text \<open>
  C3 (as the code has it). The validator returns true exactly on a payload that is an
  object whose \<open>notificationSchemeEvents\<close> is absent or an array of objects, each with an
  \<open>event\<close> object holding a numeric \<open>id\<close> and with \<open>notifications\<close> absent or an array
  of objects each holding a non-empty string \<open>notificationType\<close>. A false result makes
  \<open>transformAllNotificationEvents\<close> raise instead of transforming the payload.
\<close>

theorem isNotificationScheme_shape:
  "isNotificationScheme numeric v = scheme_shape numeric v
   \<and> (\<not> isNotificationScheme numeric v \<longrightarrow>
        transformAllNotificationEvents numeric v = Inl InvalidScheme)"
  by (simp add: isNotificationScheme_iff)

theorem isNotificationScheme_shape_witness:
  "\<not> isNotificationScheme (\<lambda>s. False)
        (JObj [(''notificationSchemeEvents'',
                JArr [JObj [(''notifications'', JArr [JObj [(''notificationType'', JStr ''User'')]])]])])
   \<and> transformAllNotificationEvents (\<lambda>s. False)
        (JObj [(''notificationSchemeEvents'',
                JArr [JObj [(''notifications'', JArr [JObj [(''notificationType'', JStr ''User'')]])]])])
       = Inl InvalidScheme"
  using isNotificationScheme_shape [of "\<lambda>s. False"
      "JObj [(''notificationSchemeEvents'',
              JArr [JObj [(''notifications'', JArr [JObj [(''notificationType'', JStr ''User'')]])]])]"]
  by simp

text \<open>
  C3 as stated fails: the field is \<open>optional()\<close> in the schema, so a payload without a
  \<open>notificationSchemeEvents\<close> array passes validation.
\<close>

theorem isNotificationScheme_without_events:
  "obj_get [(''name'', JStr ''scheme'')] ''notificationSchemeEvents'' = JUndefined
   \<and> isNotificationScheme (\<lambda>s. False) (JObj [(''name'', JStr ''scheme'')])"
  by (simp add: isNotificationScheme_def NOTIFICATION_SCHEME_def joi_required_def joi_optional_def)

subsection \<open>Diff by identity key\<close>

lemma keyBy_snoc: "keyBy f (xs @ [x]) = key_set (keyBy f xs) (f x) x"
  by (simp add: keyBy_def)

lemma keyBy_Nil: "keyBy f [] = []"
  by (simp add: keyBy_def)

lemma key_set_keys:
  "map fst (key_set kvs k v) = (if k \<in> fst ` set kvs then map fst kvs else map fst kvs @ [k])"
  by (induction kvs) force+

lemma key_set_mem:
  "(k, x) \<in> set (key_set kvs k' v') \<Longrightarrow> distinct (map fst kvs) \<Longrightarrow>
   (k = k' \<and> x = v') \<or> (k \<noteq> k' \<and> (k, x) \<in> set kvs)"
proof (induction kvs)
  case Nil
  then show ?case by simp
next
  case (Cons p kvs)
  obtain a b where p: "p = (a, b)" by (cases p)
  show ?case
  proof (cases "a = k'")
    case True
    with Cons.prems p have "(k, x) = (k', v') \<or> (k, x) \<in> set kvs" by simp
    moreover from Cons.prems(2) p True have "k' \<notin> fst ` set kvs" by simp
    then have "(k, x) \<in> set kvs \<Longrightarrow> k \<noteq> k'" by force
    ultimately show ?thesis by auto
  next
    case False
    with Cons.prems p have "(k, x) = (a, b) \<or> (k, x) \<in> set (key_set kvs k' v')" by simp
    then show ?thesis
    proof
      assume "(k, x) = (a, b)"
      with False p show ?thesis by simp
    next
      assume "(k, x) \<in> set (key_set kvs k' v')"
      from Cons.IH [OF this] Cons.prems(2) show ?thesis by auto
    qed
  qed
qed

lemma keyBy_distinct: "distinct (map fst (keyBy f xs))"
  by (induction xs rule: rev_induct) (auto simp: keyBy_Nil keyBy_snoc key_set_keys)

lemma keyBy_keys: "fst ` set (keyBy f xs) = f ` set xs"
proof (induction xs rule: rev_induct)
  case Nil
  show ?case by (simp add: keyBy_Nil)
next
  case (snoc x xs)
  have "fst ` set (key_set (keyBy f xs) (f x) x) = set (map fst (key_set (keyBy f xs) (f x) x))"
    by simp
  also have "\<dots> = insert (f x) (fst ` set (keyBy f xs))"
    by (auto simp: key_set_keys)
  finally show ?case using snoc by (simp add: keyBy_snoc)
qed

lemma keyBy_last:
  "(k, x) \<in> set (keyBy f xs) \<Longrightarrow> f x = k \<and> x \<in> set xs \<and> x = last (filter (\<lambda>y. f y = k) xs)"
proof (induction xs arbitrary: k x rule: rev_induct)
  case Nil
  then show ?case by (simp add: keyBy_Nil)
next
  case (snoc z xs)
  from snoc.prems have "(k, x) \<in> set (key_set (keyBy f xs) (f z) z)"
    by (simp add: keyBy_snoc)
  from key_set_mem [OF this keyBy_distinct]
  consider "(k, x) \<in> set (keyBy f xs)" "k \<noteq> f z" | "k = f z" "x = z"
    by auto
  then show ?case
  proof cases
    case 1
    from snoc.IH [OF 1(1)] have a: "f x = k" and b: "x \<in> set xs"
      and c: "x = last (filter (\<lambda>y. f y = k) xs)" by blast+
    from 1(2) have "filter (\<lambda>y. f y = k) (xs @ [z]) = filter (\<lambda>y. f y = k) xs" by auto
    with a b c show ?thesis by simp
  next
    case 2
    then show ?thesis by simp
  qed
qed

lemma map_of_keyBy_None: "(map_of (keyBy f xs) k = None) = (k \<notin> f ` set xs)"
  by (simp add: map_of_eq_None_iff keyBy_keys)

lemma keyBy_distinct_keys:
  "distinct (map f xs) \<Longrightarrow> keyBy f xs = map (\<lambda>x. (f x, x)) xs"
proof (induction xs rule: rev_induct)
  case Nil
  show ?case by (simp add: keyBy_Nil)
next
  case (snoc x xs)
  have app: "\<And>kvs. f x \<notin> fst ` set kvs \<Longrightarrow> key_set kvs (f x) x = kvs @ [(f x, x)]"
    subgoal for kvs by (induction kvs) auto
    done
  from snoc.prems have d: "distinct (map f xs)" and n: "f x \<notin> f ` set xs" by auto
  from snoc.IH [OF d] have e: "keyBy f xs = map (\<lambda>x. (f x, x)) xs" .
  from n have "f x \<notin> fst ` set (keyBy f xs)" by (simp add: keyBy_keys)
  from app [OF this] e show ?case by (simp add: keyBy_snoc)
qed

lemma object_values_keyBy_distinct:
  "distinct (map f xs) \<Longrightarrow> object_values (keyBy f xs) = xs"
  by (simp add: keyBy_distinct_keys object_values_def comp_def)

lemma keyBy_pairs: "p \<in> set (keyBy f xs) \<Longrightarrow> fst p = f (snd p)"
proof -
  assume "p \<in> set (keyBy f xs)"
  then have "(fst p, snd p) \<in> set (keyBy f xs)" by simp
  from keyBy_last [OF this, THEN conjunct1] show ?thesis by (rule sym)
qed

lemma object_values_keys: "map f (object_values (keyBy f xs)) = map fst (keyBy f xs)"
  by (simp add: object_values_def keyBy_pairs)

lemma object_values_distinct: "distinct (map f (object_values (keyBy f xs)))"
  by (simp add: object_values_keys keyBy_distinct)

lemma object_values_key_set: "f ` set (object_values (keyBy f xs)) = f ` set xs"
proof -
  have "f ` set (object_values (keyBy f xs)) = set (map f (object_values (keyBy f xs)))"
    by simp
  also have "\<dots> = fst ` set (keyBy f xs)"
    by (simp only: object_values_keys set_map)
  finally show ?thesis by (simp add: keyBy_keys)
qed

lemma object_values_last:
  assumes "x \<in> set (object_values (keyBy f xs))"
  shows "x \<in> set xs \<and> x = last (filter (\<lambda>y. f y = f x) xs)"
proof -
  from assms obtain k where k: "(k, x) \<in> set (keyBy f xs)"
    by (auto simp: object_values_def)
  from keyBy_last [OF k] show ?thesis by blast
qed

lemma getFullName_same_type:
  "elem_type x = elem_type y \<Longrightarrow> (getFullName x = getFullName y) = (elem_name x = elem_name y)"
  by (simp add: getFullName_def)

lemma typed_key_image:
  assumes "typed t xs" "elem_type x = t"
  shows "(getFullName x \<in> getFullName ` set xs) = (elem_name x \<in> elem_name ` set xs)"
proof -
  have "\<And>y. y \<in> set xs \<Longrightarrow> (getFullName x = getFullName y) = (elem_name x = elem_name y)"
    using assms by (simp add: typed_def list_all_iff getFullName_same_type)
  then show ?thesis by (auto simp: image_iff)
qed

lemma typed_filter_names:
  assumes "typed t xs" "elem_type x = t"
  shows "filter (\<lambda>y. getFullName y = getFullName x) xs = filter (\<lambda>y. elem_name y = elem_name x) xs"
  using assms by (intro filter_cong) (auto simp: typed_def list_all_iff getFullName_same_type)

lemma typed_distinct_names:
  assumes "typed t xs"
  shows "distinct (map getFullName xs) = distinct (map elem_name xs)"
proof -
  have i: "inj_on getFullName (set xs) = inj_on elem_name (set xs)"
    using assms by (auto simp: typed_def list_all_iff inj_on_def getFullName_same_type)
  show ?thesis by (simp add: distinct_map i)
qed

lemma typed_object_values: "typed t xs \<Longrightarrow> typed t (object_values (keyBy getFullName xs))"
  using object_values_last [of _ getFullName xs] by (auto simp: typed_def list_all_iff)

lemma typed_values_names:
  assumes "typed t xs"
  shows "elem_name ` set (object_values (keyBy getFullName xs)) = elem_name ` set xs"
    (is "elem_name ` set ?ov = _")
proof
  show "elem_name ` set ?ov \<subseteq> elem_name ` set xs"
    using object_values_last [of _ getFullName xs] by auto
  show "elem_name ` set xs \<subseteq> elem_name ` set ?ov"
  proof
    fix n assume "n \<in> elem_name ` set xs"
    then obtain x where x: "x \<in> set xs" "n = elem_name x" by auto
    then have "getFullName x \<in> getFullName ` set ?ov"
      by (simp add: object_values_key_set)
    then obtain y where y: "y \<in> set ?ov" "getFullName x = getFullName y" by auto
    from y(1) have "y \<in> set xs" using object_values_last by fastforce
    with x(1) assms have "elem_type x = elem_type y"
      by (simp add: typed_def list_all_iff)
    with y(2) have "elem_name x = elem_name y" by (simp add: getFullName_same_type)
    with y(1) x(2) show "n \<in> elem_name ` set ?ov" by auto
  qed
qed

lemma map_result_Inr:
  "map_result f xs = Inr ys \<Longrightarrow> list_all2 (\<lambda>x y. f x = Inr y) xs ys"
  by (induction xs arbitrary: ys) (auto split: sum.splits)

lemma getEventInstance_Inr:
  "getEventInstance i t e = Inr x \<Longrightarrow> elem_type x = t \<and> elem_name x = getEventKey e"
  by (auto simp: getEventInstance_def Let_def split: sum.splits)

lemma getEventInstances_Inr:
  assumes "getEventInstances i t = Inr xs"
  shows "typed t xs"
    and "\<exists>es. getEventsValues (inst_value i) = Inr es \<and> map elem_name xs = map getEventKey es"
proof -
  from assms obtain es where es: "getEventsValues (inst_value i) = Inr es"
    and m: "map_result (getEventInstance i t) es = Inr xs"
    by (auto simp: getEventInstances_def split: sum.splits)
  from map_result_Inr [OF m] have l: "list_all2 (\<lambda>e x. getEventInstance i t e = Inr x) es xs" .
  then have "list_all2 (\<lambda>e x. elem_type x = t \<and> elem_name x = getEventKey e) es xs"
    by (rule list_all2_mono) (simp add: getEventInstance_Inr)
  then have a: "\<forall>x\<in>set xs. elem_type x = t" and b: "map elem_name xs = map getEventKey es"
    by (auto simp: list_all2_conv_all_nth in_set_conv_nth intro: nth_equalityI)
  from a show "typed t xs" by (simp add: typed_def list_all_iff)
  from es b show "\<exists>es. getEventsValues (inst_value i) = Inr es \<and> map elem_name xs = map getEventKey es"
    by blast
qed

lemma newEvents_names:
  assumes "typed t before" "typed t after"
  shows "newEvents before after
         = filter (\<lambda>x. elem_name x \<notin> elem_name ` set before)
             (object_values (keyBy getFullName after))"
proof -
  have "\<And>x. x \<in> set (object_values (keyBy getFullName after)) \<Longrightarrow> elem_type x = t"
    using typed_object_values [OF assms(2)] by (simp add: typed_def list_all_iff)
  then show ?thesis
    unfolding newEvents_def map_of_keyBy_None
    by (intro filter_cong refl) (simp add: typed_key_image [OF assms(1)])
qed

lemma removedEvents_newEvents: "removedEvents before after = newEvents after before"
  by (simp add: removedEvents_def newEvents_def)

lemma object_values_typed_distinct:
  "typed t xs \<Longrightarrow> distinct (map elem_name (object_values (keyBy getFullName xs)))"
  using object_values_distinct [of getFullName xs] typed_distinct_names [OF typed_object_values]
  by simp

lemma object_values_typed_last:
  assumes "typed t xs" "x \<in> set (object_values (keyBy getFullName xs))"
  shows "x = last (filter (\<lambda>y. elem_name y = elem_name x) xs)"
proof -
  from object_values_last [OF assms(2)]
  have m: "x \<in> set xs" and l: "x = last (filter (\<lambda>y. getFullName y = getFullName x) xs)"
    by blast+
  from m assms(1) have "elem_type x = t" by (simp add: typed_def list_all_iff)
  from typed_filter_names [OF assms(1) this] l show ?thesis by simp
qed

lemma object_values_typed_id:
  "typed t xs \<Longrightarrow> distinct (map elem_name xs) \<Longrightarrow> object_values (keyBy getFullName xs) = xs"
  by (simp add: object_values_keyBy_distinct typed_distinct_names)

lemma newEvents_spec:
  assumes b: "typed t before" and a: "typed t after"
  shows "elem_name ` set (newEvents before after) = elem_name ` set after - elem_name ` set before"
    and "distinct (map elem_name (newEvents before after))"
    and "list_all (\<lambda>x. x = last (filter (\<lambda>y. elem_name y = elem_name x) after))
           (newEvents before after)"
    and "distinct (map elem_name after) \<longrightarrow>
           newEvents before after = filter (\<lambda>x. elem_name x \<notin> elem_name ` set before) after"
proof -
  let ?ov = "object_values (keyBy getFullName after)"
  note n = newEvents_names [OF b a]
  have "elem_name ` set (newEvents before after)
          = {n \<in> elem_name ` set ?ov. n \<notin> elem_name ` set before}"
    unfolding n by auto
  then show "elem_name ` set (newEvents before after) = elem_name ` set after - elem_name ` set before"
    unfolding typed_values_names [OF a] by auto
  show "distinct (map elem_name (newEvents before after))"
    unfolding n using object_values_typed_distinct [OF a] by (simp add: distinct_map_filter)
  show "list_all (\<lambda>x. x = last (filter (\<lambda>y. elem_name y = elem_name x) after))
           (newEvents before after)"
    unfolding n list_all_iff using object_values_typed_last [OF a] by simp
  show "distinct (map elem_name after) \<longrightarrow>
           newEvents before after = filter (\<lambda>x. elem_name x \<notin> elem_name ` set before) after"
    unfolding n by (simp add: object_values_typed_id [OF a])
qed

text \<open>
  C1 (as the code has it). The instances of both sides are named by their identity keys.
  The diff of a modification is the list of the removals followed by the list of the
  additions. The additions hold one entry for each identity key of the after side that the
  before side lacks: their keys are exactly those keys, no key occurs twice, and each entry
  is the last after-entry with its key. When the keys of the after side are pairwise
  distinct, the additions are exactly the after-entries whose key has no counterpart
  before. The same holds for the removals with the sides exchanged. For an addition change
  the before side is empty: there are no removals, and with pairwise distinct keys the
  additions are all the after-entries.
\<close>

theorem getEventChanges_by_identity_key:
  assumes "getEventType fieldType = Inr t"
    and "getEventInstances b t = Inr bs"
    and "getEventInstances a t = Inr as"
  shows "getEventChanges fieldType (Modification b a)
           = Inr (map Removal (removedEvents bs as) @ map Addition (newEvents bs as))
    \<and> getEventChanges fieldType (Addition a) = Inr (map Addition (newEvents [] as))
    \<and> (\<exists>es. getEventsValues (inst_value a) = Inr es \<and> map elem_name as = map getEventKey es)
    \<and> (\<exists>es. getEventsValues (inst_value b) = Inr es \<and> map elem_name bs = map getEventKey es)
    \<and> elem_name ` set (newEvents bs as) = elem_name ` set as - elem_name ` set bs
    \<and> elem_name ` set (removedEvents bs as) = elem_name ` set bs - elem_name ` set as
    \<and> distinct (map elem_name (newEvents bs as))
    \<and> distinct (map elem_name (removedEvents bs as))
    \<and> list_all (\<lambda>x. x = last (filter (\<lambda>y. elem_name y = elem_name x) as)) (newEvents bs as)
    \<and> list_all (\<lambda>x. x = last (filter (\<lambda>y. elem_name y = elem_name x) bs)) (removedEvents bs as)
    \<and> (distinct (map elem_name as) \<longrightarrow>
          newEvents bs as = filter (\<lambda>x. elem_name x \<notin> elem_name ` set bs) as
          \<and> newEvents [] as = as)
    \<and> (distinct (map elem_name bs) \<longrightarrow>
          removedEvents bs as = filter (\<lambda>x. elem_name x \<notin> elem_name ` set as) bs)"
proof -
  note tb = getEventInstances_Inr(1) [OF assms(2)]
  note ta = getEventInstances_Inr(1) [OF assms(3)]
  have te: "typed t []" by (simp add: typed_def)
  have c1: "getEventChanges fieldType (Modification b a)
           = Inr (map Removal (removedEvents bs as) @ map Addition (newEvents bs as))"
    using assms by simp
  have c2: "getEventChanges fieldType (Addition a) = Inr (map Addition (newEvents [] as))"
    using assms by (simp add: removedEvents_def keyBy_Nil object_values_def)
  have c3: "distinct (map elem_name as) \<longrightarrow> newEvents [] as = as"
    using newEvents_spec(4) [OF te ta] by simp
  show ?thesis
    using c1 c2 c3 getEventInstances_Inr(2) [OF assms(3)] getEventInstances_Inr(2) [OF assms(2)]
      newEvents_spec [OF tb ta] newEvents_spec [OF ta tb]
    unfolding removedEvents_newEvents by blast
qed

theorem getEventChanges_by_identity_key_witness:
  "getEventType (ObjType eventObjectType) = Inr eventObjectType
   \<and> getEventInstances scheme_before eventObjectType = Inr [before_10_User, before_10_Group]
   \<and> getEventInstances scheme_after eventObjectType = Inr [after_10_User, after_11_User]
   \<and> distinct (map elem_name [after_10_User, after_11_User])
   \<and> distinct (map elem_name [before_10_User, before_10_Group])
   \<and> getEventChanges (ObjType eventObjectType) (Modification scheme_before scheme_after)
       = Inr [Removal before_10_Group, Addition after_11_User]
   \<and> getEventChanges (ObjType eventObjectType) (Addition scheme_after)
       = Inr [Addition after_10_User, Addition after_11_User]"
proof -
  have h1: "getEventType (ObjType eventObjectType) = Inr eventObjectType"
    by simp
  have h2: "getEventInstances scheme_before eventObjectType = Inr [before_10_User, before_10_Group]"
    by code_simp
  have h3: "getEventInstances scheme_after eventObjectType = Inr [after_10_User, after_11_User]"
    by code_simp
  have d1: "distinct (map elem_name [after_10_User, after_11_User])"
    by (simp add: after_10_User_def after_11_User_def)
  have d2: "distinct (map elem_name [before_10_User, before_10_Group])"
    by (simp add: before_10_User_def before_10_Group_def)
  have n: "elem_name ` set [after_10_User, after_11_User] = {''10-User-undefined'', ''11-User-undefined''}"
    "elem_name ` set [before_10_User, before_10_Group] = {''10-User-undefined'', ''10-Group-admins''}"
    "elem_name after_10_User = ''10-User-undefined''" "elem_name after_11_User = ''11-User-undefined''"
    "elem_name before_10_User = ''10-User-undefined''" "elem_name before_10_Group = ''10-Group-admins''"
    by (simp_all add: after_10_User_def after_11_User_def before_10_User_def before_10_Group_def)
  from getEventChanges_by_identity_key [OF h1 h2 h3] d1 d2
  have "getEventChanges (ObjType eventObjectType) (Modification scheme_before scheme_after)
           = Inr (map Removal (removedEvents [before_10_User, before_10_Group] [after_10_User, after_11_User])
                  @ map Addition (newEvents [before_10_User, before_10_Group] [after_10_User, after_11_User]))"
    and "getEventChanges (ObjType eventObjectType) (Addition scheme_after)
           = Inr (map Addition (newEvents [] [after_10_User, after_11_User]))"
    and "newEvents [before_10_User, before_10_Group] [after_10_User, after_11_User]
           = filter (\<lambda>x. elem_name x \<notin> elem_name ` set [before_10_User, before_10_Group])
               [after_10_User, after_11_User]"
    and "newEvents [] [after_10_User, after_11_User] = [after_10_User, after_11_User]"
    and "removedEvents [before_10_User, before_10_Group] [after_10_User, after_11_User]
           = filter (\<lambda>x. elem_name x \<notin> elem_name ` set [after_10_User, after_11_User])
               [before_10_User, before_10_Group]"
    by blast+
  with h1 h2 h3 d1 d2 show ?thesis
    by (simp add: n)
qed

text \<open>
  C1 as stated fails where two after-entries share an identity key: the addition of
  \<open>scheme_shared_key\<close> projects to two different entries, neither with a counterpart
  before, and the diff adds only the later one.
\<close>

theorem getEventChanges_shared_key:
  "getEventInstances scheme_shared_key eventObjectType
     = Inr [entry_10_User, entry_10_User_undefined]
   \<and> entry_10_User \<noteq> entry_10_User_undefined
   \<and> getEventChanges (ObjType eventObjectType) (Addition scheme_shared_key)
     = Inr [Addition entry_10_User_undefined]"
proof -
  have "getEventInstances scheme_shared_key eventObjectType
     = Inr [entry_10_User, entry_10_User_undefined]"
    by code_simp
  moreover have "entry_10_User \<noteq> entry_10_User_undefined"
    by (simp add: entry_10_User_def entry_10_User_undefined_def)
  moreover have "getEventChanges (ObjType eventObjectType) (Addition scheme_shared_key)
     = Inr [Addition entry_10_User_undefined]"
    by code_simp
  ultimately show ?thesis by blast
qed

subsection \<open>Property lists and the two phases of the apply loop\<close>

lemma has_key_set: "has_key (obj_set kvs k v) k' = (k' = k \<or> has_key kvs k')"
  by (induction kvs) (auto split: if_splits)

lemma obj_get_set: "obj_get (obj_set kvs k v) k' = (if k' = k then v else obj_get kvs k')"
  by (induction kvs) auto

lemma deployEvents_after_start:
  assumes "getEventChanges fieldType (resolveChangeElement resolve change) = Inr cs"
    and "start_all \<lparr>ds_value = inst_value (getChangeData change), ds_calls = []\<rparr> cs = (st1, ps)"
    and "foldl (deliver numeric cl)
           \<lparr>rs_state = st1, rs_tasks = ps, rs_promise = promise_after_start st1 ps\<rparr>
           (c_order cl @ [0..<length ps] @ [0..<length ps]) = rs"
  shows "deployEvents numeric resolve fieldType cl change
           = \<lparr>dr_value = ds_value (rs_state rs),
              dr_calls = ds_calls (rs_state rs),
              dr_tasks = map settled_outcome (rs_tasks rs),
              dr_error = (case rs_promise rs of Some (r, v) \<Rightarrow> r | None \<Rightarrow> None),
              dr_value_at_settle =
                (case rs_promise rs of Some (r, v) \<Rightarrow> v | None \<Rightarrow> ds_value (rs_state rs))\<rparr>"
  unfolding deployEvents_def Let_def assms(1) sum.case assms(2) prod.case assms(3)
  by (rule refl)

subsection \<open>The removal branch\<close>

text \<open>
  C10. A removal reads the stored identifier with no guard. When the instance has an
  identifier map, the task issues the delete call on
  \<open>/rest/api/3/notificationscheme/{schemeId}/notification/{id}\<close> with whatever the
  lookup yields as the id, and nothing else happens before the answer; for a key the map
  lacks the lookup yields \<open>undefined\<close> and the url of the call ends in the text
  \<open>undefined\<close>. When the instance has no identifier map, the lookup raises and the task
  settles as failed with no call issued.
\<close>

theorem removal_lookup_unguarded:
  "(\<not> nullish (obj_get (ds_value st) ''notificationIds'') \<longrightarrow>
      task_start st (Removal eventInstance)
        = (st\<lparr>ds_calls := ds_calls st @
               [Delete (''/rest/api/3/notificationscheme/''
                  @ js_to_string (obj_get (inst_value eventInstance) ''schemeId'')
                  @ ''/notification/''
                  @ js_to_string (js_prop (obj_get (ds_value st) ''notificationIds'')
                       (js_to_string (obj_get (inst_value eventInstance) ''name''))))]\<rparr>,
           AwaitDelete eventInstance
             (''/rest/api/3/notificationscheme/''
                  @ js_to_string (obj_get (inst_value eventInstance) ''schemeId'')
                  @ ''/notification/''
                  @ js_to_string (js_prop (obj_get (ds_value st) ''notificationIds'')
                       (js_to_string (obj_get (inst_value eventInstance) ''name''))))))
   \<and> (obj_get (ds_value st) ''notificationIds'' = JObj ids
        \<and> obj_get ids (js_to_string (obj_get (inst_value eventInstance) ''name'')) = JUndefined \<longrightarrow>
      task_start st (Removal eventInstance)
        = (st\<lparr>ds_calls := ds_calls st @
               [Delete (''/rest/api/3/notificationscheme/''
                  @ js_to_string (obj_get (inst_value eventInstance) ''schemeId'')
                  @ ''/notification/undefined'')]\<rparr>,
           AwaitDelete eventInstance
             (''/rest/api/3/notificationscheme/''
                  @ js_to_string (obj_get (inst_value eventInstance) ''schemeId'')
                  @ ''/notification/undefined'')))
   \<and> (nullish (obj_get (ds_value st) ''notificationIds'') \<longrightarrow>
        task_start st (Removal eventInstance) = (st, Settled (Some TypeError)))"
  by (simp add: delete_url_def Let_def nullish_def)

theorem removal_lookup_unguarded_witness:
  "task_start \<lparr>ds_value = inst_value scheme_after, ds_calls = []\<rparr> (Removal before_10_Group)
     = (\<lparr>ds_value = inst_value scheme_after,
         ds_calls = [Delete ''/rest/api/3/notificationscheme/7/notification/101'']\<rparr>,
        AwaitDelete before_10_Group ''/rest/api/3/notificationscheme/7/notification/101'')
   \<and> task_start \<lparr>ds_value = [(''id'', JNum 7), (''notificationIds'', JObj [])], ds_calls = []\<rparr>
       (Removal before_10_Group)
     = (\<lparr>ds_value = [(''id'', JNum 7), (''notificationIds'', JObj [])],
         ds_calls = [Delete ''/rest/api/3/notificationscheme/7/notification/undefined'']\<rparr>,
        AwaitDelete before_10_Group ''/rest/api/3/notificationscheme/7/notification/undefined'')
   \<and> task_start \<lparr>ds_value = [(''id'', JNum 7)], ds_calls = []\<rparr> (Removal before_10_Group)
     = (\<lparr>ds_value = [(''id'', JNum 7)], ds_calls = []\<rparr>, Settled (Some TypeError))
   \<and> filter is_delete (dr_calls (deployEvents (\<lambda>s. False) (\<lambda>i. i) (ObjType eventObjectType)
         client_three (Modification scheme_before scheme_after)))
     = [Delete ''/rest/api/3/notificationscheme/7/notification/101'']"
proof -
  let ?s1 = "\<lparr>ds_value = inst_value scheme_after, ds_calls = []\<rparr>"
  let ?s2 = "\<lparr>ds_value = [(''id'', JNum 7), (''notificationIds'', JObj [])], ds_calls = []\<rparr>"
  let ?s3 = "\<lparr>ds_value = [(''id'', JNum 7)], ds_calls = []\<rparr>"
  have a1: "\<not> nullish (obj_get (ds_value ?s1) ''notificationIds'')"
    by code_simp
  have a2: "obj_get (ds_value ?s2) ''notificationIds'' = JObj []
            \<and> obj_get [] (js_to_string (obj_get (inst_value before_10_Group) ''name'')) = JUndefined"
    by simp
  have a3: "nullish (obj_get (ds_value ?s3) ''notificationIds'')"
    by (simp add: nullish_def)
  have u1: "''/rest/api/3/notificationscheme/''
              @ js_to_string (obj_get (inst_value before_10_Group) ''schemeId'')
              @ ''/notification/''
              @ js_to_string (js_prop (obj_get (ds_value ?s1) ''notificationIds'')
                   (js_to_string (obj_get (inst_value before_10_Group) ''name'')))
            = ''/rest/api/3/notificationscheme/7/notification/101''"
    by code_simp
  have u2: "''/rest/api/3/notificationscheme/''
              @ js_to_string (obj_get (inst_value before_10_Group) ''schemeId'')
              @ ''/notification/undefined''
            = ''/rest/api/3/notificationscheme/7/notification/undefined''"
    by code_simp
  have d: "filter is_delete (dr_calls (deployEvents (\<lambda>s. False) (\<lambda>i. i) (ObjType eventObjectType)
         client_three (Modification scheme_before scheme_after)))
     = [Delete ''/rest/api/3/notificationscheme/7/notification/101'']"
    by code_simp
  from removal_lookup_unguarded [of ?s1 before_10_Group, THEN conjunct1, rule_format, OF a1]
  have c1: "task_start ?s1 (Removal before_10_Group)
     = (\<lparr>ds_value = inst_value scheme_after,
         ds_calls = [Delete ''/rest/api/3/notificationscheme/7/notification/101'']\<rparr>,
        AwaitDelete before_10_Group ''/rest/api/3/notificationscheme/7/notification/101'')"
    unfolding u1 by simp
  from removal_lookup_unguarded [of ?s2 before_10_Group "[]", THEN conjunct2, THEN conjunct1,
         rule_format, OF a2]
  have c2: "task_start ?s2 (Removal before_10_Group)
     = (\<lparr>ds_value = [(''id'', JNum 7), (''notificationIds'', JObj [])],
         ds_calls = [Delete ''/rest/api/3/notificationscheme/7/notification/undefined'']\<rparr>,
        AwaitDelete before_10_Group ''/rest/api/3/notificationscheme/7/notification/undefined'')"
    unfolding u2 by simp
  from removal_lookup_unguarded [of ?s3 before_10_Group, THEN conjunct2, THEN conjunct2,
         rule_format, OF a3]
  have c3: "task_start ?s3 (Removal before_10_Group) = (?s3, Settled (Some TypeError))" .
  from c1 c2 c3 d show ?thesis by blast
qed

subsection \<open>Create calls of an addition\<close>

lemma has_key_absent_get: "\<not> has_key kvs k \<Longrightarrow> obj_get kvs k = JUndefined"
  by (induction kvs) auto

lemma obj_get_pickBy:
  "distinct_keys kvs \<Longrightarrow> obj_get (pickBy_isDefined kvs) k = obj_get kvs k"
proof (induction kvs)
  case Nil
  show ?case by (simp add: pickBy_isDefined_def)
next
  case (Cons p kvs)
  obtain a b where p: "p = (a, b)" by (cases p)
  from Cons.prems p have n: "\<not> has_key kvs a" and d: "distinct_keys kvs" by simp_all
  from Cons.IH [OF d] have ih: "obj_get (pickBy_isDefined kvs) k = obj_get kvs k" .
  show ?case
  proof (cases "b = JUndefined")
    case True
    then have "obj_get (pickBy_isDefined (p # kvs)) k = obj_get kvs k"
      using ih p by (simp add: pickBy_isDefined_def)
    moreover have "obj_get (p # kvs) k = obj_get kvs k"
      using True p has_key_absent_get [OF n] by auto
    ultimately show ?thesis by simp
  next
    case False
    then show ?thesis using ih p by (simp add: pickBy_isDefined_def)
  qed
qed

lemma distinct_keys_set: "distinct_keys kvs \<Longrightarrow> distinct_keys (obj_set kvs k v)"
  by (induction kvs) (auto simp: has_key_set)

lemma convert_fields:
  assumes evs: "obj_get v ''notificationSchemeEvents'' = JArr evs"
    and K: "js_to_string (event_type_name (ev_type e))
              \<notin> set [''notifications'', ''eventTypeIds'', ''schemeId'']"
  shows "\<exists>body. convertValuesToJSPBody e name ident v = Inr body
           \<and> obj_get body ''notifications'' = JArr (same_type_notifications evs e)
           \<and> obj_get body ''eventTypeIds'' = ev_eventType e
           \<and> obj_get body ''schemeId'' = obj_get v ''id''"
proof -
  let ?K = "js_to_string (event_type_name (ev_type e))"
  from K have k: "''notifications'' \<noteq> ?K" "''eventTypeIds'' \<noteq> ?K" "''schemeId'' \<noteq> ?K"
    by auto
  show ?thesis
    using evs k
    by (simp add: convertValuesToJSPBody_def Let_def obj_get_pickBy distinct_keys_set obj_get_set
        same_type_notifications_def del: obj_set.simps)
qed

lemma getEventInstance_fields:
  assumes evs: "obj_get (inst_value inst) ''notificationSchemeEvents'' = JArr evs"
    and K: "js_to_string (event_type_name (ev_type e))
              \<notin> set [''notifications'', ''eventTypeIds'', ''schemeId'']"
  shows "\<exists>x. getEventInstance inst t e = Inr x
           \<and> elem_name x = getEventKey e
           \<and> obj_get (inst_value x) ''notifications'' = JArr (same_type_notifications evs e)
           \<and> obj_get (inst_value x) ''eventTypeIds'' = ev_eventType e
           \<and> obj_get (inst_value x) ''schemeId'' = obj_get (inst_value inst) ''id''"
proof -
  let ?ids = "obj_get (inst_value inst) ''notificationIds''"
  from convert_fields [OF evs K, of "getEventKey e"
         "if nullish ?ids then JUndefined else js_prop ?ids (getEventKey e)"]
  obtain body where "convertValuesToJSPBody e (getEventKey e)
         (if nullish ?ids then JUndefined else js_prop ?ids (getEventKey e)) (inst_value inst)
         = Inr body"
    and "obj_get body ''notifications'' = JArr (same_type_notifications evs e)"
    and "obj_get body ''eventTypeIds'' = ev_eventType e"
    and "obj_get body ''schemeId'' = obj_get (inst_value inst) ''id''"
    by blast
  then show ?thesis by (simp add: getEventInstance_def Let_def)
qed

lemma put_notification_wire: "\<not> nullish n \<Longrightarrow> put_notification n = Inr (wire_descriptor n)"
  by (simp add: put_notification_def wire_descriptor_def pickBy_isDefined_def split: jv.splits)

lemma put_notifications_wire:
  "list_all (\<lambda>n. \<not> nullish n) ns \<Longrightarrow> map_result put_notification ns = Inr (map wire_descriptor ns)"
  by (induction ns) (simp_all add: put_notification_wire)

lemma put_call_create:
  assumes "obj_get (inst_value x) ''notifications'' = JArr ns"
    and "obj_get (inst_value x) ''eventTypeIds'' = eventType"
    and "obj_get (inst_value x) ''schemeId'' = schemeId"
    and "list_all (\<lambda>n. \<not> nullish n) ns"
  shows "put_call x = [create_call schemeId eventType ns]"
  using assms
  by (simp add: put_call_def put_data_def put_notifications_wire create_call_def put_url_def)

lemma has_descriptors_defined:
  assumes "list_all has_descriptors evs"
  shows "list_all (\<lambda>n. \<not> nullish n) (same_type_notifications evs e)"
proof -
  have "\<not> nullish n" if "n \<in> set (same_type_notifications evs e)" for n
  proof -
    from that obtain i ev where "(i, ev) \<in> set (enumerate 0 evs)"
      and n: "n \<in> set (flat1 (js_prop ev ''notifications''))"
      by (auto simp: same_type_notifications_def)
    then have "ev \<in> set evs" by (auto simp: in_set_enumerate_eq)
    with assms have "has_descriptors ev" by (simp add: list_all_iff)
    then obtain kvs ns where "ev = JObj kvs" "obj_get kvs ''notifications'' = JArr ns"
      "list_all is_object ns"
      by (cases ev) (auto split: jv.splits)
    with n have "is_object n" by (simp add: list_all_iff)
    then show ?thesis by (cases n) (simp_all add: nullish_def)
  qed
  then show ?thesis by (simp add: list_all_iff)
qed

lemma map_result_total:
  "(\<And>x. x \<in> set xs \<Longrightarrow> \<exists>y. f x = Inr y) \<Longrightarrow>
   map_result f xs = Inr (map (\<lambda>x. projr (f x)) xs)"
proof (induction xs)
  case Nil
  show ?case by simp
next
  case (Cons x xs)
  from Cons.prems [of x] obtain y where y: "f x = Inr y" by auto
  from Cons.IH Cons.prems have "map_result f xs = Inr (map (\<lambda>x. projr (f x)) xs)" by simp
  with y show ?case by simp
qed

lemma answer_calls:
  "answer numeric cl i st p = (st', p') \<Longrightarrow>
   filter is_put (ds_calls st') = filter is_put (ds_calls st)
   \<and> filter is_delete (ds_calls st') = filter is_delete (ds_calls st)"
  by (cases p) (auto split: if_splits option.splits prod.splits)

lemma deliver_calls:
  "filter is_put (ds_calls (rs_state (deliver numeric cl rs i)))
     = filter is_put (ds_calls (rs_state rs))
   \<and> filter is_delete (ds_calls (rs_state (deliver numeric cl rs i)))
     = filter is_delete (ds_calls (rs_state rs))"
proof (cases "i < length (rs_tasks rs)")
  case False
  then show ?thesis by (simp add: deliver_def)
next
  case True
  obtain st p where a: "answer numeric cl i (rs_state rs) (rs_tasks rs ! i) = (st, p)"
    by (cases "answer numeric cl i (rs_state rs) (rs_tasks rs ! i)")
  from answer_calls [OF a] True a show ?thesis by (simp add: deliver_def)
qed

lemma foldl_deliver_calls:
  "filter is_put (ds_calls (rs_state (foldl (deliver numeric cl) rs order)))
     = filter is_put (ds_calls (rs_state rs))
   \<and> filter is_delete (ds_calls (rs_state (foldl (deliver numeric cl) rs order)))
     = filter is_delete (ds_calls (rs_state rs))"
  by (induction order arbitrary: rs) (simp_all add: deliver_calls)

lemma start_all_additions:
  "start_all st (map Addition es) = (st', ps) \<Longrightarrow>
   ds_calls st' = ds_calls st @ concat (map put_call es)"
proof (induction es arbitrary: st st' ps)
  case Nil
  then show ?case by simp
next
  case (Cons e es)
  obtain st1 p where f: "task_start st (Addition e) = (st1, p)" by (cases "task_start st (Addition e)")
  obtain st2 ps2 where g: "start_all st1 (map Addition es) = (st2, ps2)"
    by (cases "start_all st1 (map Addition es)")
  from f have c: "ds_calls st1 = ds_calls st @ put_call e"
    by (auto simp: Let_def put_call_def split: sum.splits if_splits)
  from Cons.prems f g have "st' = st2" by simp
  with Cons.IH [OF g] c show ?case by simp
qed

lemma put_call_puts: "filter is_put (put_call e) = put_call e" "filter is_delete (put_call e) = []"
  by (simp_all add: put_call_def split: sum.splits)

lemma concat_put_calls:
  "filter is_put (concat (map put_call es)) = concat (map put_call es)"
  "filter is_delete (concat (map put_call es)) = []"
  by (induction es) (simp_all add: put_call_puts)

lemma getEventChanges_Addition:
  assumes "getEventType fieldType = Inr t" and "getEventInstances a t = Inr as"
  shows "getEventChanges fieldType (Addition a) = Inr (map Addition (newEvents [] as))"
  using assms by (simp add: removedEvents_def keyBy_def object_values_def)

lemma deployEvents_calls_Addition:
  assumes "getEventChanges fieldType (Addition (resolve a)) = Inr (map Addition es)"
  shows "filter is_put (dr_calls (deployEvents numeric resolve fieldType cl (Addition a)))
           = concat (map put_call es)"
    and "filter is_delete (dr_calls (deployEvents numeric resolve fieldType cl (Addition a))) = []"
proof -
  obtain st1 ps where s: "start_all \<lparr>ds_value = inst_value (getChangeData (Addition a)), ds_calls = []\<rparr>
                            (map Addition es) = (st1, ps)"
    by (cases "start_all \<lparr>ds_value = inst_value (getChangeData (Addition a)), ds_calls = []\<rparr>
                 (map Addition es)")
  have c: "getEventChanges fieldType (resolveChangeElement resolve (Addition a))
             = Inr (map Addition es)"
    using assms by simp
  note r = deployEvents_after_start [OF c s refl, of numeric cl]
  from start_all_additions [OF s] have d: "ds_calls st1 = concat (map put_call es)" by simp
  show "filter is_put (dr_calls (deployEvents numeric resolve fieldType cl (Addition a)))
           = concat (map put_call es)"
    unfolding r by (simp add: foldl_deliver_calls d concat_put_calls del: foldl_append)
  show "filter is_delete (dr_calls (deployEvents numeric resolve fieldType cl (Addition a))) = []"
    unfolding r by (simp add: foldl_deliver_calls d concat_put_calls del: foldl_append)
qed

text \<open>
  C2 (as the code has it). Take an addition change whose after state holds a list of scheme
  events, each with a list of notification descriptors, whose entries have pairwise distinct
  identity keys and no channel type named \<open>notifications\<close>, \<open>eventTypeIds\<close> or
  \<open>schemeId\<close>. The diff is one addition per entry, named by the identity keys, and no
  removal. The apply loop issues exactly one create call per entry, in the order of the
  entries, and no delete call. The call of an entry is a \<open>PUT\<close> on the notification
  path of the scheme; its body holds one scheme event, with the entry's event type and the
  notification descriptors of all scheme events of that type. Three entries on two event
  types are sent as three create calls.
\<close>

theorem addition_one_create_per_entry:
  assumes "getEventType fieldType = Inr t"
    and "obj_get (inst_value (resolve a)) ''notificationSchemeEvents'' = JArr evs"
    and "list_all has_descriptors evs"
    and "getEventsValues (inst_value (resolve a)) = Inr es"
    and "distinct (map getEventKey es)"
    and "list_all (\<lambda>e. js_to_string (event_type_name (ev_type e))
                     \<notin> set [''notifications'', ''eventTypeIds'', ''schemeId'']) es"
  shows "(\<exists>as. getEventChanges fieldType (Addition (resolve a)) = Inr (map Addition as)
            \<and> map elem_name as = map getEventKey es)
    \<and> filter is_put (dr_calls (deployEvents numeric resolve fieldType cl (Addition a)))
         = map (\<lambda>e. create_call (obj_get (inst_value (resolve a)) ''id'') (ev_eventType e)
                      (same_type_notifications evs e)) es
    \<and> length (filter is_put (dr_calls (deployEvents numeric resolve fieldType cl (Addition a))))
         = length es
    \<and> filter is_delete (dr_calls (deployEvents numeric resolve fieldType cl (Addition a))) = []"
proof -
  let ?inst = "resolve a"
  let ?g = "\<lambda>e. projr (getEventInstance ?inst t e)"
  let ?call = "\<lambda>e. create_call (obj_get (inst_value ?inst) ''id'') (ev_eventType e)
                      (same_type_notifications evs e)"
  define as where "as = map ?g es"
  have f: "getEventInstance ?inst t e = Inr (?g e)
           \<and> elem_name (?g e) = getEventKey e
           \<and> put_call (?g e) = [?call e]" if "e \<in> set es" for e
  proof -
    from that assms(6)
    have K: "js_to_string (event_type_name (ev_type e))
               \<notin> set [''notifications'', ''eventTypeIds'', ''schemeId'']"
      by (simp add: list_all_iff)
    from getEventInstance_fields [OF assms(2) K, of t]
    obtain x where x: "getEventInstance ?inst t e = Inr x"
      and n: "elem_name x = getEventKey e"
      and a1: "obj_get (inst_value x) ''notifications'' = JArr (same_type_notifications evs e)"
      and a2: "obj_get (inst_value x) ''eventTypeIds'' = ev_eventType e"
      and a3: "obj_get (inst_value x) ''schemeId'' = obj_get (inst_value ?inst) ''id''"
      by blast
    from put_call_create [OF a1 a2 a3 has_descriptors_defined [OF assms(3)]]
    have c: "put_call x = [?call e]" .
    from x have "?g e = x" by simp
    with x n c show ?thesis by blast
  qed
  have f1: "\<exists>y. getEventInstance ?inst t e = Inr y" if "e \<in> set es" for e
    using f [OF that] by blast
  have f2: "elem_name (?g e) = getEventKey e" if "e \<in> set es" for e
    using f [OF that] by blast
  have f3: "put_call (?g e) = [?call e]" if "e \<in> set es" for e
    using f [OF that] by blast
  have "map_result (getEventInstance ?inst t) es = Inr as"
    unfolding as_def by (rule map_result_total) (rule f1)
  with assms(4) have gi: "getEventInstances ?inst t = Inr as"
    by (simp add: getEventInstances_def)
  have names: "map elem_name as = map getEventKey es"
    unfolding as_def map_map by (rule map_cong [OF refl]) (simp add: f2)
  have "typed t []" by (simp add: typed_def)
  from newEvents_spec(4) [OF this getEventInstances_Inr(1) [OF gi]] assms(5) names
  have "newEvents [] as = as" by simp
  with getEventChanges_Addition [OF assms(1) gi]
  have c: "getEventChanges fieldType (Addition ?inst) = Inr (map Addition as)" by simp
  have "map put_call as = map (\<lambda>e. [?call e]) es"
    unfolding as_def map_map by (rule map_cong [OF refl]) (simp add: f3)
  then have "concat (map put_call as) = concat (map (\<lambda>e. [?call e]) es)" by simp
  also have "\<dots> = map ?call es" by (induction es) simp_all
  finally have p: "concat (map put_call as) = map ?call es" .
  note d = deployEvents_calls_Addition [of fieldType resolve a as numeric cl, OF c]
  from c names have "\<exists>as. getEventChanges fieldType (Addition ?inst) = Inr (map Addition as)
            \<and> map elem_name as = map getEventKey es"
    by blast
  moreover from d(1) p
  have "filter is_put (dr_calls (deployEvents numeric resolve fieldType cl (Addition a)))
          = map ?call es" by simp
  moreover from d(2)
  have "filter is_delete (dr_calls (deployEvents numeric resolve fieldType cl (Addition a))) = []" .
  ultimately show ?thesis by simp
qed

theorem addition_one_create_per_entry_witness:
  "getEventType (ObjType eventObjectType) = Inr eventObjectType
   \<and> obj_get (inst_value scheme_three) ''notificationSchemeEvents'' = JArr three_events
   \<and> list_all has_descriptors three_events
   \<and> getEventsValues (inst_value scheme_three) = Inr three_entries
   \<and> map getEventKey three_entries
       = [''10-User-undefined'', ''10-Group-admins'', ''11-User-undefined'']
   \<and> list_all (\<lambda>e. js_to_string (event_type_name (ev_type e))
                   \<notin> set [''notifications'', ''eventTypeIds'', ''schemeId'']) three_entries
   \<and> getEventChanges (ObjType eventObjectType) (Addition scheme_three)
       = Inr [Addition three_10_User, Addition three_10_Group, Addition three_11_User]
   \<and> filter is_put (dr_calls (deployEvents (\<lambda>s. False) (\<lambda>i. i) (ObjType eventObjectType)
         client_three (Addition scheme_three)))
       = [put_event_10, put_event_10, put_event_11]
   \<and> length (filter is_put (dr_calls (deployEvents (\<lambda>s. False) (\<lambda>i. i)
         (ObjType eventObjectType) client_three (Addition scheme_three)))) = 3
   \<and> filter is_delete (dr_calls (deployEvents (\<lambda>s. False) (\<lambda>i. i) (ObjType eventObjectType)
         client_three (Addition scheme_three))) = []"
proof -
  have h1: "getEventType (ObjType eventObjectType) = Inr eventObjectType"
    by simp
  have h2: "obj_get (inst_value ((\<lambda>i. i) scheme_three)) ''notificationSchemeEvents''
              = JArr three_events"
    by code_simp
  have h3: "list_all has_descriptors three_events"
    by code_simp
  have h4: "getEventsValues (inst_value ((\<lambda>i. i) scheme_three)) = Inr three_entries"
    by code_simp
  have k: "map getEventKey three_entries
             = [''10-User-undefined'', ''10-Group-admins'', ''11-User-undefined'']"
    by code_simp
  then have h5: "distinct (map getEventKey three_entries)"
    by simp
  have h6: "list_all (\<lambda>e. js_to_string (event_type_name (ev_type e))
                   \<notin> set [''notifications'', ''eventTypeIds'', ''schemeId'']) three_entries"
    by code_simp
  have c: "getEventChanges (ObjType eventObjectType) (Addition scheme_three)
             = Inr [Addition three_10_User, Addition three_10_Group, Addition three_11_User]"
    by code_simp
  have p: "map (\<lambda>e. create_call (obj_get (inst_value ((\<lambda>i. i) scheme_three)) ''id'')
                  (ev_eventType e) (same_type_notifications three_events e)) three_entries
             = [put_event_10, put_event_10, put_event_11]"
    by code_simp
  note t = addition_one_create_per_entry
         [of "ObjType eventObjectType" eventObjectType "\<lambda>i. i" scheme_three three_events
             three_entries "\<lambda>s. False" client_three,
          OF h1 h2 h3 h4 h5 h6, unfolded p]
  from t have "filter is_put (dr_calls (deployEvents (\<lambda>s. False) (\<lambda>i. i)
         (ObjType eventObjectType) client_three (Addition scheme_three)))
       = [put_event_10, put_event_10, put_event_11]"
    and "filter is_delete (dr_calls (deployEvents (\<lambda>s. False) (\<lambda>i. i)
         (ObjType eventObjectType) client_three (Addition scheme_three))) = []"
    by blast+
  with h1 h2 h3 h4 k h6 c show ?thesis by simp
qed

text \<open>
  C2 as stated fails: the loop has one task per added entry and no grouping by event
  type, so the new scheme with three bindings on two event types gets three create calls.
\<close>

theorem addition_three_entries_three_creates:
  "map (\<lambda>x. obj_get (inst_value x) ''eventTypeIds'')
       [three_10_User, three_10_Group, three_11_User] = [JNum 10, JNum 10, JNum 11]
   \<and> getEventChanges (ObjType eventObjectType) (Addition scheme_three)
       = Inr [Addition three_10_User, Addition three_10_Group, Addition three_11_User]
   \<and> length (filter is_put (dr_calls (deployEvents (\<lambda>s. False) (\<lambda>i. i)
         (ObjType eventObjectType) client_three (Addition scheme_three)))) = 3
   \<and> length (filter is_put (dr_calls (deployEvents (\<lambda>s. False) (\<lambda>i. i)
         (ObjType eventObjectType) client_three (Addition scheme_three)))) \<noteq> 2"
proof -
  have "filter is_put (dr_calls (deployEvents (\<lambda>s. False) (\<lambda>i. i)
         (ObjType eventObjectType) client_three (Addition scheme_three)))
        = [put_event_10, put_event_10, put_event_11]"
    by code_simp
  moreover have "getEventChanges (ObjType eventObjectType) (Addition scheme_three)
       = Inr [Addition three_10_User, Addition three_10_Group, Addition three_11_User]"
    by code_simp
  ultimately show ?thesis
    by (simp add: three_10_User_def three_10_Group_def three_11_User_def)
qed

subsection \<open>Read-back of the remote identifier\<close>

lemma find_filter_hd:
  "find P xs = Some x \<Longrightarrow> \<exists>ys. filter P xs = x # ys"
  by (induction xs) (auto split: if_splits)

lemma optional_chain_id: "(if nullish x then JUndefined else js_prop x k) = js_prop x k"
  by (cases x) (simp_all add: nullish_def)

lemma list_ex_nullish: "list_ex nullish xs = (\<not> list_all (\<lambda>n. \<not> nullish n) xs)"
  by (induction xs) simp_all

text \<open>
  C9. After a create call that succeeds, the task issues the read-back. With a page
  that passes validation, the candidates are the notifications of the read-back events
  whose event id is the entry's event type id, and the id stored under the entry's name is
  the id of the first candidate whose \<open>notificationType\<close> is the entry's channel type. Of
  the entry, only its scheme id, event type id, channel type and name enter: the parameter
  is never compared, so for two bindings of one event type and channel type the stored id
  can be the one of the other binding.
\<close>

theorem readback_first_match_by_type:
  assumes put: "c_put cl i url d"
    and get: "c_getSinglePage cl i ''/rest/api/3/notificationscheme''
           [(''id'', schemeId), (''expand'', JStr ''notificationSchemeEvents'')] = Some page"
    and page: "isPageResponse page" "isNotificationScheme numeric (first_value page)"
      "js_prop (first_value page) ''notificationSchemeEvents'' = JArr evs"
    and cands: "candidates
           = concat (map (\<lambda>ev. flat1 (js_prop ev ''notifications''))
               (filter (\<lambda>ev. strict_eq (js_prop (js_prop ev ''event'') ''id'') eventTypeId) evs))"
    and defined: "list_all (\<lambda>n. \<not> nullish n) candidates"
    and first: "find (\<lambda>n. strict_eq (js_prop n ''notificationType'') channelType) candidates
                  = Some n"
    and ids: "obj_get (ds_value st) ''notificationIds'' = JObj ids"
    and e: "obj_get (inst_value e) ''schemeId'' = schemeId"
      "obj_get (inst_value e) ''eventTypeIds'' = eventTypeId"
      "obj_get (inst_value e) ''type'' = channelType"
  shows "answer numeric cl i st (AwaitPut e url d)
           = (st\<lparr>ds_calls := ds_calls st @
                  [Get ''/rest/api/3/notificationscheme''
                     [(''id'', schemeId), (''expand'', JStr ''notificationSchemeEvents'')]]\<rparr>,
              AwaitGet e)
    \<and> answer numeric cl i st (AwaitGet e)
           = (st\<lparr>ds_value := obj_set (ds_value st) ''notificationIds''
                    (JObj (obj_set ids (js_to_string (obj_get (inst_value e) ''name''))
                       (js_prop n ''id'')))\<rparr>,
              Settled None)"
proof -
  have c: "readback_candidates e evs = candidates"
    unfolding cands readback_candidates_def by (simp add: Let_def optional_chain_id e)
  from find_filter_hd [OF first] obtain ns where
    f: "filter (\<lambda>n. strict_eq (js_prop n ''notificationType'') channelType) candidates = n # ns"
    by blast
  from defined f have m: "readback_matches e evs = Inr (n # ns)"
    by (simp add: readback_matches_def c list_ex_nullish e)
  have r: "readback numeric (ds_value st) e page
             = (obj_set (ds_value st) ''notificationIds''
                    (JObj (obj_set ids (js_to_string (obj_get (inst_value e) ''name''))
                       (js_prop n ''id''))), None)"
    using page m ids by (simp add: readback_def record_id_def)
  from put get r show ?thesis
    by (simp add: readback_query_def e)
qed

theorem readback_first_match_by_type_witness:
  "answer (\<lambda>s. False) client_mail 0
       \<lparr>ds_value = inst_value scheme_mail_after,
        ds_calls = [Put ''/rest/api/3/notificationscheme/7/notification'' mail_put_data]\<rparr>
       (AwaitPut mail_b ''/rest/api/3/notificationscheme/7/notification'' mail_put_data)
     = (\<lparr>ds_value = inst_value scheme_mail_after,
         ds_calls = [Put ''/rest/api/3/notificationscheme/7/notification'' mail_put_data,
                     Get ''/rest/api/3/notificationscheme''
                       [(''id'', JNum 7), (''expand'', JStr ''notificationSchemeEvents'')]]\<rparr>,
        AwaitGet mail_b)
   \<and> answer (\<lambda>s. False) client_mail 0
       \<lparr>ds_value = inst_value scheme_mail_after,
        ds_calls = [Put ''/rest/api/3/notificationscheme/7/notification'' mail_put_data]\<rparr>
       (AwaitGet mail_b)
     = (\<lparr>ds_value = obj_set (inst_value scheme_mail_after) ''notificationIds''
            (JObj [(''10-EmailAddress-a@x.org'', JNum 555),
                   (''10-EmailAddress-b@x.org'', JNum 555)]),
         ds_calls = [Put ''/rest/api/3/notificationscheme/7/notification'' mail_put_data]\<rparr>,
        Settled None)
   \<and> dr_value (deployEvents (\<lambda>s. False) (\<lambda>i. i) (ObjType eventObjectType) client_mail
        (Modification scheme_mail_before scheme_mail_after))
     = obj_set (inst_value scheme_mail_after) ''notificationIds''
         (JObj [(''10-EmailAddress-a@x.org'', JNum 555),
                (''10-EmailAddress-b@x.org'', JNum 555)])"
proof -
  let ?evs = "[JObj [(''event'', JObj [(''id'', JNum 11)]),
                     (''notifications'',
                      JArr [JObj [(''id'', JNum 700),
                                  (''notificationType'', JStr ''EmailAddress''),
                                  (''parameter'', JStr ''z@x.org'')]])],
               JObj [(''event'', JObj [(''id'', JNum 10)]),
                     (''notifications'',
                      JArr [JObj [(''id'', JNum 554), (''notificationType'', JStr ''User'')],
                            JObj [(''id'', JNum 555),
                                  (''notificationType'', JStr ''EmailAddress''),
                                  (''parameter'', JStr ''a@x.org'')],
                            JObj [(''id'', JNum 556),
                                  (''notificationType'', JStr ''EmailAddress''),
                                  (''parameter'', JStr ''b@x.org'')]])]]"
  let ?cands = "[JObj [(''id'', JNum 554), (''notificationType'', JStr ''User'')],
                 JObj [(''id'', JNum 555), (''notificationType'', JStr ''EmailAddress''),
                       (''parameter'', JStr ''a@x.org'')],
                 JObj [(''id'', JNum 556), (''notificationType'', JStr ''EmailAddress''),
                       (''parameter'', JStr ''b@x.org'')]]"
  let ?n = "JObj [(''id'', JNum 555), (''notificationType'', JStr ''EmailAddress''),
                  (''parameter'', JStr ''a@x.org'')]"
  let ?st = "\<lparr>ds_value = inst_value scheme_mail_after,
        ds_calls = [Put ''/rest/api/3/notificationscheme/7/notification'' mail_put_data]\<rparr>"
  have h1: "c_put client_mail 0 ''/rest/api/3/notificationscheme/7/notification'' mail_put_data"
    by (simp add: client_mail_def)
  have h2: "c_getSinglePage client_mail 0 ''/rest/api/3/notificationscheme''
           [(''id'', JNum 7), (''expand'', JStr ''notificationSchemeEvents'')] = Some page_mail"
    by (simp add: client_mail_def)
  have h3: "isPageResponse page_mail"
    by (simp add: page_mail_def)
  have h4: "isNotificationScheme (\<lambda>s. False) (first_value page_mail)"
    by code_simp
  have h5: "js_prop (first_value page_mail) ''notificationSchemeEvents'' = JArr ?evs"
    by (simp add: page_mail_def)
  have h6: "?cands
           = concat (map (\<lambda>ev. flat1 (js_prop ev ''notifications''))
               (filter (\<lambda>ev. strict_eq (js_prop (js_prop ev ''event'') ''id'') (JNum 10)) ?evs))"
    by simp
  have h7: "list_all (\<lambda>n. \<not> nullish n) ?cands"
    by (simp add: nullish_def)
  have h8: "find (\<lambda>n. strict_eq (js_prop n ''notificationType'') (JStr ''EmailAddress'')) ?cands
              = Some ?n"
    by simp
  have h9: "obj_get (ds_value ?st) ''notificationIds''
              = JObj [(''10-EmailAddress-a@x.org'', JNum 555)]"
    by (simp add: scheme_mail_after_def)
  have e: "obj_get (inst_value mail_b) ''schemeId'' = JNum 7"
    "obj_get (inst_value mail_b) ''eventTypeIds'' = JNum 10"
    "obj_get (inst_value mail_b) ''type'' = JStr ''EmailAddress''"
    by (simp_all add: mail_b_def)
  have k: "js_to_string (obj_get (inst_value mail_b) ''name'') = ''10-EmailAddress-b@x.org''"
    by (simp add: mail_b_def)
  have d: "dr_value (deployEvents (\<lambda>s. False) (\<lambda>i. i) (ObjType eventObjectType) client_mail
        (Modification scheme_mail_before scheme_mail_after))
     = obj_set (inst_value scheme_mail_after) ''notificationIds''
         (JObj [(''10-EmailAddress-a@x.org'', JNum 555),
                (''10-EmailAddress-b@x.org'', JNum 555)])"
    by code_simp
  from readback_first_match_by_type [OF h1 h2 h3 h4 h5 h6 h7 h8 h9 e] d
  show ?thesis
    by (simp add: k)
qed


text \<open>
  C4, on the code. The new e-mail binding is created and the read-back page fails
  validation (its event has no \<open>event\<close> reference, or the page is empty): the task
  resolves, \<open>deployEvents\<close> reports no error, and the identifier map still has no entry
  for the new binding. With a valid page that has no notification of the channel type,
  reading the id of the first match raises and the add is reported as failed.
\<close>

theorem readback_invalid_not_reported:
  "\<not> isNotificationScheme (\<lambda>s. False) (first_value page_invalid)
   \<and> dr_tasks (deployEvents (\<lambda>s. False) (\<lambda>i. i) (ObjType eventObjectType) client_invalid
        (Modification scheme_mail_before scheme_mail_after)) = [None]
   \<and> dr_error (deployEvents (\<lambda>s. False) (\<lambda>i. i) (ObjType eventObjectType) client_invalid
        (Modification scheme_mail_before scheme_mail_after)) = None
   \<and> obj_get (dr_value (deployEvents (\<lambda>s. False) (\<lambda>i. i) (ObjType eventObjectType)
        client_invalid (Modification scheme_mail_before scheme_mail_after))) ''notificationIds''
       = JObj [(''10-EmailAddress-a@x.org'', JNum 555)]
   \<and> filter is_put (dr_calls (deployEvents (\<lambda>s. False) (\<lambda>i. i) (ObjType eventObjectType)
        client_invalid (Modification scheme_mail_before scheme_mail_after)))
       = [Put ''/rest/api/3/notificationscheme/7/notification'' mail_put_data]
   \<and> \<not> isNotificationScheme (\<lambda>s. False) (first_value page_empty)
   \<and> dr_error (deployEvents (\<lambda>s. False) (\<lambda>i. i) (ObjType eventObjectType) client_empty
        (Modification scheme_mail_before scheme_mail_after)) = None
   \<and> obj_get (dr_value (deployEvents (\<lambda>s. False) (\<lambda>i. i) (ObjType eventObjectType)
        client_empty (Modification scheme_mail_before scheme_mail_after))) ''notificationIds''
       = JObj [(''10-EmailAddress-a@x.org'', JNum 555)]
   \<and> isNotificationScheme (\<lambda>s. False) (first_value page_no_match)
   \<and> dr_error (deployEvents (\<lambda>s. False) (\<lambda>i. i) (ObjType eventObjectType) client_no_match
        (Modification scheme_mail_before scheme_mail_after)) = Some TypeError"
proof -
  have "\<not> isNotificationScheme (\<lambda>s. False) (first_value page_invalid)"
    by code_simp
  moreover have "dr_tasks (deployEvents (\<lambda>s. False) (\<lambda>i. i) (ObjType eventObjectType)
        client_invalid (Modification scheme_mail_before scheme_mail_after)) = [None]"
    by code_simp
  moreover have "dr_error (deployEvents (\<lambda>s. False) (\<lambda>i. i) (ObjType eventObjectType)
        client_invalid (Modification scheme_mail_before scheme_mail_after)) = None"
    by code_simp
  moreover have "obj_get (dr_value (deployEvents (\<lambda>s. False) (\<lambda>i. i) (ObjType eventObjectType)
        client_invalid (Modification scheme_mail_before scheme_mail_after))) ''notificationIds''
       = JObj [(''10-EmailAddress-a@x.org'', JNum 555)]"
    by code_simp
  moreover have "filter is_put (dr_calls (deployEvents (\<lambda>s. False) (\<lambda>i. i)
        (ObjType eventObjectType) client_invalid
        (Modification scheme_mail_before scheme_mail_after)))
       = [Put ''/rest/api/3/notificationscheme/7/notification'' mail_put_data]"
    by code_simp
  moreover have "\<not> isNotificationScheme (\<lambda>s. False) (first_value page_empty)"
    by code_simp
  moreover have "dr_error (deployEvents (\<lambda>s. False) (\<lambda>i. i) (ObjType eventObjectType)
        client_empty (Modification scheme_mail_before scheme_mail_after)) = None"
    by code_simp
  moreover have "obj_get (dr_value (deployEvents (\<lambda>s. False) (\<lambda>i. i) (ObjType eventObjectType)
        client_empty (Modification scheme_mail_before scheme_mail_after))) ''notificationIds''
       = JObj [(''10-EmailAddress-a@x.org'', JNum 555)]"
    by code_simp
  moreover have "isNotificationScheme (\<lambda>s. False) (first_value page_no_match)"
    by code_simp
  moreover have "dr_error (deployEvents (\<lambda>s. False) (\<lambda>i. i) (ObjType eventObjectType)
        client_no_match (Modification scheme_mail_before scheme_mail_after)) = Some TypeError"
    by code_simp
  ultimately show ?thesis by blast
qed

subsection \<open>Isolation under partial failure\<close>








subsection \<open>Pre-transform and post-transform\<close>

lemma obj_del_absent: "\<not> has_key kvs k \<Longrightarrow> obj_del kvs k = kvs"
  by (induction kvs) auto

lemma obj_del_set_same: "obj_del (obj_set kvs k v) k = obj_del kvs k"
  by (induction kvs) auto

lemma obj_del_set_other: "k' \<noteq> k \<Longrightarrow> obj_del (obj_set kvs k v) k' = obj_set (obj_del kvs k') k v"
  by (induction kvs) auto

lemma obj_set_set_same: "obj_set (obj_set kvs k v) k v' = obj_set kvs k v'"
  by (induction kvs) auto

lemma obj_set_swap:
  "has_key kvs k \<Longrightarrow> k' \<noteq> k \<Longrightarrow>
   obj_set (obj_set kvs k' v') k v = obj_set (obj_set kvs k v) k' v'"
  by (induction kvs) auto

lemma obj_get_defined_has_key: "obj_get kvs k \<noteq> JUndefined \<Longrightarrow> has_key kvs k"
  by (induction kvs) (auto split: if_splits)

lemma obj_set_get_same: "has_key kvs k \<Longrightarrow> obj_set kvs k (obj_get kvs k) = kvs"
  by (induction kvs) auto

lemma canonical_notification_roundtrip:
  "canonical_notification n \<Longrightarrow> on_notification (pre_notification n) = n \<and> \<not> nullish n
     \<and> \<not> nullish (pre_notification n)"
  by (cases n) (auto simp: nullish_def obj_del_set_same obj_del_absent)

lemma canonical_notifications_roundtrip:
  "list_all canonical_notification ns \<Longrightarrow> on_notifications (pre_notifications ns) = (ns, True)"
proof (induction ns)
  case Nil
  show ?case by simp
next
  case (Cons n ns)
  then have c: "canonical_notification n" and r: "on_notifications (pre_notifications ns) = (ns, True)"
    by simp_all
  from canonical_notification_roundtrip [OF c] r show ?case by simp
qed

lemma canonical_notifications_on:
  "list_all canonical_notification ns \<Longrightarrow> on_notifications ns = (ns, True)"
proof (induction ns)
  case Nil
  show ?case by simp
next
  case (Cons n ns)
  then obtain kvs where n: "n = JObj kvs" "\<not> has_key kvs ''notificationType''"
    by (cases n) auto
  with Cons show ?case by (simp add: nullish_def obj_del_absent)
qed

lemma canonical_event_filter: "canonical_event e \<Longrightarrow> isNotificationSchemeEvent e"
  by (cases e) (auto simp: isNotificationSchemeEvent_def joi_optional_def)

lemma pre_event_filter: "canonical_event e \<Longrightarrow> isNotificationSchemeEvent (pre_event e)"
  by (cases e) (auto simp: isNotificationSchemeEvent_def joi_optional_def Let_def split: jv.splits)

lemma canonical_event_roundtrip:
  assumes "canonical_event e"
  shows "on_event (pre_event e) = e"
proof -
  from assms obtain kvs where e: "e = JObj kvs" and k: "\<not> has_key kvs ''event''"
    and n: "obj_get kvs ''notifications'' = JUndefined
            \<or> (\<exists>ns. obj_get kvs ''notifications'' = JArr ns \<and> list_all canonical_notification ns)"
    by (cases e) (auto split: jv.splits)
  from n show ?thesis
  proof
    assume u: "obj_get kvs ''notifications'' = JUndefined"
    then show ?thesis
      using e k by (simp add: Let_def obj_get_set obj_del_set_same obj_del_absent)
  next
    assume "\<exists>ns. obj_get kvs ''notifications'' = JArr ns \<and> list_all canonical_notification ns"
    then obtain ns where a: "obj_get kvs ''notifications'' = JArr ns"
      and c: "list_all canonical_notification ns" by blast
    from a have h: "has_key kvs ''notifications''"
      by (intro obj_get_defined_has_key) simp
    have restore: "obj_set kvs ''notifications'' (JArr ns) = kvs"
      using obj_set_get_same [OF h] a by simp
    show ?thesis
    proof (cases "obj_get kvs ''eventType'' = JUndefined")
      case True
      with e a k show ?thesis
        by (simp add: canonical_notifications_on [OF c] obj_del_set_other obj_del_absent restore)
    next
      case False
      with e a k show ?thesis
        by (simp add: Let_def obj_get_set canonical_notifications_roundtrip [OF c]
            obj_set_set_same obj_del_set_other obj_del_set_same obj_del_absent restore)
    qed
  qed
qed

lemma canonical_events_roundtrip:
  "list_all canonical_event evs \<Longrightarrow>
   map (\<lambda>e. if isNotificationSchemeEvent e then on_event e else e)
     (map (\<lambda>e. if isNotificationSchemeEvent e then pre_event e else e) evs) = evs"
  by (induction evs)
     (simp_all add: canonical_event_filter pre_event_filter canonical_event_roundtrip)

lemma canonical_values_roundtrip:
  assumes "canonical_values v"
  shows "\<exists>v'. preDeploy_values rm v = Inr v'
           \<and> onDeploy_values Number rm v' = Inr (coerce_id Number v)"
proof -
  from assms have k: "\<not> has_key v ''schemeId''"
    and n: "obj_get v ''notificationSchemeEvents'' = JUndefined
            \<or> (\<exists>evs. obj_get v ''notificationSchemeEvents'' = JArr evs \<and> list_all canonical_event evs)"
    by (auto simp: canonical_values_def split: jv.splits)
  from n show ?thesis
  proof
    assume u: "obj_get v ''notificationSchemeEvents'' = JUndefined"
    with k show ?thesis
      by (simp add: preDeploy_values_def onDeploy_values_def coerce_id_def Let_def obj_get_set
          obj_del_set_other obj_del_set_same obj_del_absent)
  next
    assume "\<exists>evs. obj_get v ''notificationSchemeEvents'' = JArr evs \<and> list_all canonical_event evs"
    then obtain evs where a: "obj_get v ''notificationSchemeEvents'' = JArr evs"
      and c: "list_all canonical_event evs" by blast
    from a have h: "has_key v ''notificationSchemeEvents''"
      by (intro obj_get_defined_has_key) simp
    have restore: "obj_set v ''notificationSchemeEvents'' (JArr evs) = v"
      using obj_set_get_same [OF h] a by simp
    let ?E = "JArr (map (\<lambda>e. if isNotificationSchemeEvent e then pre_event e else e) evs)"
    have h': "has_key (obj_set v ''notificationSchemeEvents'' ?E) ''notificationSchemeEvents''"
      by (simp add: has_key_set)
    have sw: "\<And>x. obj_set (obj_set (obj_set v ''notificationSchemeEvents'' ?E) ''id'' x)
                 ''notificationSchemeEvents'' (JArr evs)
              = obj_set v ''id'' x"
      using obj_set_swap [OF h', of "''id''" _ "JArr evs"]
      by (simp add: obj_set_set_same restore)
    show ?thesis
      using a k
      by (simp add: preDeploy_values_def onDeploy_values_def coerce_id_def Let_def obj_get_set
          canonical_events_roundtrip [OF c] obj_del_set_other obj_del_set_same obj_del_absent
          has_key_set sw del: map_map)
  qed
qed

lemma getChangeData_map: "getChangeData (map_change_data f c) = f (getChangeData c)"
  by (cases c) simp_all

lemma map_change_data_twice: "map_change_data f (map_change_data g c) = map_change_data (\<lambda>d. f (g d)) c"
  by (cases c) simp_all

lemma removalOrModification_map:
  "isRemovalOrModificationChange (map_change_data f c) = isRemovalOrModificationChange c"
  by (cases c) simp_all

lemma canonical_change_roundtrip:
  assumes "canonical_change T c"
  shows "\<exists>c'. on_instance T (\<lambda>c. preDeploy_values (isRemovalOrModificationChange c)) c = Inr c'
           \<and> on_instance T (\<lambda>c. onDeploy_values Number (isRemovalOrModificationChange c)) c'
               = Inr (coerce_change Number T c)"
proof (cases "getChangeData c")
  case (OtherElem n)
  then show ?thesis by (simp add: coerce_change_def)
next
  case (InstanceElem i)
  show ?thesis
  proof (cases "ot_name (elem_type i) = T")
    case False
    with InstanceElem show ?thesis by (simp add: coerce_change_def)
  next
    case True
    with assms InstanceElem have "canonical_values (inst_value i)"
      by (simp add: canonical_change_def)
    from canonical_values_roundtrip [OF this, of "isRemovalOrModificationChange c" Number]
    obtain v' where p: "preDeploy_values (isRemovalOrModificationChange c) (inst_value i) = Inr v'"
      and q: "onDeploy_values Number (isRemovalOrModificationChange c) v'
                = Inr (coerce_id Number (inst_value i))" by blast
    let ?c' = "map_change_data (\<lambda>d. InstanceElem (i\<lparr>inst_value := v'\<rparr>)) c"
    have a: "on_instance T (\<lambda>c. preDeploy_values (isRemovalOrModificationChange c)) c = Inr ?c'"
      using InstanceElem True p by simp
    have r: "isRemovalOrModificationChange ?c' = isRemovalOrModificationChange c"
      by (rule removalOrModification_map)
    have b: "on_instance T (\<lambda>c. onDeploy_values Number (isRemovalOrModificationChange c)) ?c'
               = Inr (coerce_change Number T c)"
      using InstanceElem True q
      by (simp add: getChangeData_map r map_change_data_twice coerce_change_def
          del: isRemovalOrModificationChange.simps)
    from a b show ?thesis by blast
  qed
qed

lemma canonical_changes_roundtrip:
  "list_all (canonical_change T) changes \<Longrightarrow>
   \<exists>cs. map_result (on_instance T (\<lambda>c. preDeploy_values (isRemovalOrModificationChange c))) changes
           = Inr cs
       \<and> map_result (on_instance T (\<lambda>c. onDeploy_values Number (isRemovalOrModificationChange c))) cs
           = Inr (map (coerce_change Number T) changes)"
proof (induction changes)
  case Nil
  show ?case by simp
next
  case (Cons c changes)
  then have "canonical_change T c" and "list_all (canonical_change T) changes" by simp_all
  from canonical_change_roundtrip [OF this(1), of Number] Cons.IH [OF this(2)]
  obtain c' cs where
    "on_instance T (\<lambda>c. preDeploy_values (isRemovalOrModificationChange c)) c = Inr c'"
    "on_instance T (\<lambda>c. onDeploy_values Number (isRemovalOrModificationChange c)) c'
       = Inr (coerce_change Number T c)"
    "map_result (on_instance T (\<lambda>c. preDeploy_values (isRemovalOrModificationChange c))) changes
       = Inr cs"
    "map_result (on_instance T (\<lambda>c. onDeploy_values Number (isRemovalOrModificationChange c))) cs
       = Inr (map (coerce_change Number T) changes)"
    by blast
  then show ?case by (simp del: on_instance.simps)
qed

text \<open>
  C8. For changes whose scheme instances are in declarative shape, the pre-transform
  succeeds, and the post-transform of its result gives back every change as it was, except
  that the top-level id of each scheme instance is now \<open>Number(id)\<close>: the \<open>event\<close>,
  \<open>notificationType\<close> and \<open>schemeId\<close> fields the pre-transform added are gone.
\<close>

theorem preDeploy_onDeploy_roundtrip:
  assumes "list_all (canonical_change schemeTypeName) changes"
  shows "\<exists>cs. preDeploy False schemeTypeName changes = Inr cs
           \<and> onDeploy False Number schemeTypeName cs
               = Inr (map (coerce_change Number schemeTypeName) changes)"
  using canonical_changes_roundtrip [OF assms, of Number]
  by (simp add: preDeploy_def onDeploy_def)

theorem preDeploy_onDeploy_roundtrip_witness:
  "list_all (canonical_change ''NotificationScheme'')
     [Modification (InstanceElem scheme_canonical) (InstanceElem scheme_canonical),
      Addition (OtherElem ''jira.Field'')]
   \<and> preDeploy False ''NotificationScheme''
       [Modification (InstanceElem scheme_canonical) (InstanceElem scheme_canonical),
        Addition (OtherElem ''jira.Field'')]
     = Inr [Modification (InstanceElem scheme_canonical) (InstanceElem scheme_wire),
            Addition (OtherElem ''jira.Field'')]
   \<and> onDeploy False example_Number ''NotificationScheme''
       [Modification (InstanceElem scheme_canonical) (InstanceElem scheme_wire),
        Addition (OtherElem ''jira.Field'')]
     = Inr [Modification (InstanceElem scheme_canonical) (InstanceElem scheme_restored),
            Addition (OtherElem ''jira.Field'')]"
proof -
  let ?cs = "[Modification (InstanceElem scheme_canonical) (InstanceElem scheme_canonical),
              Addition (OtherElem ''jira.Field'')]"
  have h: "list_all (canonical_change ''NotificationScheme'') ?cs"
    by code_simp
  have p: "preDeploy False ''NotificationScheme'' ?cs
     = Inr [Modification (InstanceElem scheme_canonical) (InstanceElem scheme_wire),
            Addition (OtherElem ''jira.Field'')]"
    by code_simp
  have m: "map (coerce_change example_Number ''NotificationScheme'') ?cs
     = [Modification (InstanceElem scheme_canonical) (InstanceElem scheme_restored),
        Addition (OtherElem ''jira.Field'')]"
    by code_simp
  from preDeploy_onDeploy_roundtrip [OF h, of example_Number]
  obtain cs where "preDeploy False ''NotificationScheme'' ?cs = Inr cs"
    and "onDeploy False example_Number ''NotificationScheme'' cs
           = Inr (map (coerce_change example_Number ''NotificationScheme'') ?cs)"
    by blast
  with h p m show ?thesis by simp
qed

subsection \<open>Data Center\<close>

text \<open>
  C7. When the client is a Data Center client, \<open>deploy\<close> gives back all changes as
  leftover changes, with no applied change and no error, whatever the two deploy
  operations would do, and \<open>preDeploy\<close> and \<open>onDeploy\<close> succeed and leave every change as
  it is.
\<close>

theorem data_center_defers:
  assumes "isDataCenter"
  shows "deploy isDataCenter schemeTypeName eventTypeName defaultDeployChange deployEventsOf changes
           = \<lparr>leftoverChanges = changes, deployResult = \<lparr>appliedChanges = [], errors = []\<rparr>\<rparr>
    \<and> preDeploy isDataCenter schemeTypeName changes = Inr changes
    \<and> onDeploy isDataCenter Number schemeTypeName changes = Inr changes"
  using assms by (simp add: deploy_def preDeploy_def onDeploy_def)

theorem data_center_defers_witness:
  "deploy True ''NotificationScheme'' ''NotificationSchemeEvent''
       (\<lambda>c fields. (c, Some RemoteError)) (\<lambda>c. (c, Some RemoteError))
       [Modification (InstanceElem scheme_canonical) (InstanceElem scheme_canonical),
        Addition (OtherElem ''jira.Field'')]
     = \<lparr>leftoverChanges =
          [Modification (InstanceElem scheme_canonical) (InstanceElem scheme_canonical),
           Addition (OtherElem ''jira.Field'')],
        deployResult = \<lparr>appliedChanges = [], errors = []\<rparr>\<rparr>
   \<and> preDeploy True ''NotificationScheme''
       [Modification (InstanceElem scheme_canonical) (InstanceElem scheme_canonical),
        Addition (OtherElem ''jira.Field'')]
     = Inr [Modification (InstanceElem scheme_canonical) (InstanceElem scheme_canonical),
            Addition (OtherElem ''jira.Field'')]
   \<and> onDeploy True example_Number ''NotificationScheme''
       [Modification (InstanceElem scheme_canonical) (InstanceElem scheme_canonical),
        Addition (OtherElem ''jira.Field'')]
     = Inr [Modification (InstanceElem scheme_canonical) (InstanceElem scheme_canonical),
            Addition (OtherElem ''jira.Field'')]"
  using data_center_defers
    [of True "''NotificationScheme''" "''NotificationSchemeEvent''"
        "\<lambda>c fields. (c, Some RemoteError)" "\<lambda>c. (c, Some RemoteError)"
        "[Modification (InstanceElem scheme_canonical) (InstanceElem scheme_canonical),
          Addition (OtherElem ''jira.Field'')]" example_Number]
  by simp

end
